theory Spec2Isabelle
  imports Complex_Main
begin

section \<open>Data model of app.py\<close>

text \<open>
  The enumerations \<^verbatim>\<open>Currency\<close> and \<^verbatim>\<open>PaymentStatus\<close> (app.py 23-32): the name of a
  member, which is the text the column type \<^verbatim>\<open>SQLEnum\<close> keeps in the table, and its
  value, which is the text a response shows.
\<close>

datatype Currency = USD | UGX | KES

fun Currency_name :: "Currency \<Rightarrow> string" where
  "Currency_name USD = ''USD''"
| "Currency_name UGX = ''UGX''"
| "Currency_name KES = ''KES''"

fun Currency_value :: "Currency \<Rightarrow> string" where
  "Currency_value USD = ''USD''"
| "Currency_value UGX = ''UGX''"
| "Currency_value KES = ''KES''"

datatype PaymentStatus = PENDING | SUCCEEDED | FAILED | REFUNDED

fun PaymentStatus_value :: "PaymentStatus \<Rightarrow> string" where
  "PaymentStatus_value PENDING = ''pending''"
| "PaymentStatus_value SUCCEEDED = ''succeeded''"
| "PaymentStatus_value FAILED = ''failed''"
| "PaymentStatus_value REFUNDED = ''refunded''"

text \<open>A JSON value, for the free-form \<^verbatim>\<open>metadata\<close> of a request.\<close>

datatype json =
    JNull
  | JBool bool
  | JNum real
  | JStr string
  | JArr "json list"
  | JObj "(string \<times> json) list"

text \<open>
  Numbers. The handlers hold a number of the body as Python holds it after
  \<^verbatim>\<open>request.json\<close>: an integer, or a double. They only compare numbers and store them,
  and Python compares an integer with a double by their exact values, so a number is
  modelled by the real it denotes. \<open>is_double\<close> holds of the reals a double denotes and
  \<open>is_number\<close> of those an integer or a double denotes; infinities and NaN are not in
  the model.
\<close>

definition is_double :: "real \<Rightarrow> bool" where
  "is_double x =
     (\<exists>m e :: int. \<bar>m\<bar> < 2 ^ 53 \<and> - 1074 \<le> e \<and> e \<le> 971 \<and> x = of_int m * 2 powr of_int e)"

definition is_number :: "real \<Rightarrow> bool" where
  "is_number x = (x \<in> \<int> \<or> is_double x)"

text \<open>
  A row of the table behind the model class \<^verbatim>\<open>Payment\<close> (app.py 35-43). The request's
  currency text is assigned to the column as it comes (app.py 129) and the table keeps
  it as text, so the row holds text. The column \<^verbatim>\<open>amount\<close> is a \<^verbatim>\<open>Float\<close>: it holds a
  double, and keeps a double it is given as it is. A Python \<^verbatim>\<open>str\<close> is modelled as a
  \<^typ>\<open>string\<close>, each \<^typ>\<open>char\<close> standing for a code point below 256; among those the
  pattern class \<^verbatim>\<open>\d\<close> holds exactly the ten ASCII digits.
\<close>

type_synonym datetime = int

record Payment =
  payment_id :: string
  amount :: real
  currency :: string
  status :: PaymentStatus
  created_at :: datetime
  description :: "string option"
  payment_metadata :: json
  last_four :: string

record CardDetails =
  card_number :: string
  expiry_month :: string
  expiry_year :: string
  cvv :: string
  cardholder_name :: string

text \<open>
  \<^verbatim>\<open>PaymentRequest\<close> (app.py 68-74). \<^verbatim>\<open>card_details\<close> defaults to \<^verbatim>\<open>None\<close> in the
  constructor, so the field is optional.
\<close>

record PaymentRequest =
  req_amount :: real
  req_currency :: string
  req_description :: "string option"
  req_metadata :: json
  req_card_details :: "CardDetails option"

text \<open>
  The body of a POST as \<^verbatim>\<open>request.json\<close> gives it: a dictionary in which each of the
  keys the handler reads with \<^verbatim>\<open>data[...]\<close> may be missing. A key that is there holds a
  value of the kind the interface names: a number as amount, strings in the card
  details and as currency. \<^verbatim>\<open>description\<close> and \<^verbatim>\<open>metadata\<close> are read with
  \<^verbatim>\<open>data.get\<close>, which gives \<^verbatim>\<open>None\<close> for a missing key.
\<close>

record card_data =
  data_card_number :: "string option"
  data_expiry_month :: "string option"
  data_expiry_year :: "string option"
  data_cvv :: "string option"
  data_cardholder_name :: "string option"

record payment_data =
  data_amount :: "real option"
  data_currency :: "string option"
  data_description :: "string option"
  data_metadata :: json
  data_card_details :: "card_data option"

text \<open>
  The exceptions the handlers tell apart: a \<^verbatim>\<open>ValueError\<close> with its message, the
  \<^verbatim>\<open>ValueError\<close> that \<^verbatim>\<open>int()\<close> raises on a string (its message is the interpreter's
  and is kept as the string it is about), both answered with 400, and every other
  exception, answered with 500 after a rollback.
\<close>

datatype error = ValueError string | IntValueError string | OtherException

datatype body =
    Detail string
  | IntErrorDetail string
  | PaymentJson Payment
  | PaymentListJson "Payment list"

type_synonym response = "nat \<times> body"

text \<open>
  What a handler reads from outside the request: the environment variable
  \<^verbatim>\<open>API_KEY\<close> (absent or set), the calendar year of \<^verbatim>\<open>datetime.now()\<close>, and the
  identifier \<^verbatim>\<open>uuid4()\<close> and the time \<^verbatim>\<open>datetime.utcnow()\<close> produce for a new row.
\<close>

record env =
  getenv_API_KEY :: "string option"
  now_year :: int
  uuid4 :: string
  utcnow :: datetime

section \<open>Patterns and integer parsing\<close>

definition is_digit :: "char \<Rightarrow> bool" where
  "is_digit c = (c \<in> set ''0123456789'')"

text \<open>
  The anchor \<^verbatim>\<open>$\<close> of Python's \<^verbatim>\<open>re\<close> (without MULTILINE) matches at the end of the
  string and also just before a newline that is the last character.
\<close>

definition at_end :: "string \<Rightarrow> bool" where
  "at_end rest = (rest = [] \<or> rest = [CHR 0x0A])"

text \<open>\<^verbatim>\<open>re.match(r'^\d{n}$', s)\<close> finds a match.\<close>

definition match_digits :: "nat \<Rightarrow> string \<Rightarrow> bool" where
  "match_digits n s =
     (length (take n s) = n \<and> list_all is_digit (take n s) \<and> at_end (drop n s))"

text \<open>\<^verbatim>\<open>re.match(r'^(0[1-9]|1[0-2])$', s)\<close> finds a match.\<close>

definition match_month :: "string \<Rightarrow> bool" where
  "match_month s =
     (case s of
        a # b # rest \<Rightarrow>
          ((a = CHR ''0'' \<and> b \<in> set ''123456789'') \<or> (a = CHR ''1'' \<and> b \<in> set ''012''))
          \<and> at_end rest
      | _ \<Rightarrow> False)"

text \<open>
  \<^verbatim>\<open>re.match(r'^\d{3,4}$', s)\<close> finds a match: the greedy attempt with four digits,
  or after backtracking the one with three.
\<close>

definition match_cvv :: "string \<Rightarrow> bool" where
  "match_cvv s = (match_digits 4 s \<or> match_digits 3 s)"

text \<open>
  The characters \<^verbatim>\<open>int()\<close> skips around a number: the six ASCII ones (tab to carriage
  return, and the space) and, of the code points from 128 on, the two that are Unicode
  spaces. The separators 0x1C to 0x1F are not among them.
\<close>

definition int_isspace :: "char \<Rightarrow> bool" where
  "int_isspace c =
     (c \<in> set [CHR 0x09, CHR 0x0A, CHR 0x0B, CHR 0x0C, CHR 0x0D, CHR 0x20, CHR 0x85, CHR 0xA0])"

definition strip :: "string \<Rightarrow> string" where
  "strip s = dropWhile int_isspace (rev (dropWhile int_isspace (rev s)))"

definition digits_to_int :: "string \<Rightarrow> int" where
  "digits_to_int ds = foldl (\<lambda>a c. 10 * a + (int (of_char c) - 48)) 0 ds"

text \<open>
  The digits of an integer literal: at least one digit, single underscores only between
  digits. The flag says whether the previous character was a digit.
\<close>

fun int_body_ok :: "bool \<Rightarrow> string \<Rightarrow> bool" where
  "int_body_ok prev [] = prev"
| "int_body_ok prev (c # cs) =
     (if is_digit c then int_body_ok True cs
      else if c = CHR ''_'' \<and> prev then int_body_ok False cs
      else False)"

text \<open>The most digits \<^verbatim>\<open>int()\<close> converts (the interpreter's default limit).\<close>

definition int_max_str_digits :: nat where
  "int_max_str_digits = 4300"

text \<open>
  Python's \<^verbatim>\<open>int(s)\<close> on a string, base ten: surrounding whitespace is dropped, one
  sign is allowed. \<open>None\<close> stands for the \<^verbatim>\<open>ValueError\<close> it raises.
\<close>

definition py_int :: "string \<Rightarrow> int option" where
  "py_int s =
     (let t = strip s;
          neg = (t \<noteq> [] \<and> hd t = CHR ''-'');
          signed = (t \<noteq> [] \<and> (hd t = CHR ''-'' \<or> hd t = CHR ''+''));
          digits = (if signed then tl t else t)
      in if int_body_ok False digits \<and> length (filter is_digit digits) \<le> int_max_str_digits
         then Some ((if neg then - 1 else 1) * digits_to_int (filter is_digit digits))
         else None)"

section \<open>Validation\<close>

text \<open>\<^verbatim>\<open>CardDetails.validate\<close> (app.py 58-66); the argument is \<^verbatim>\<open>datetime.now().year\<close>.\<close>

definition CardDetails_validate :: "int \<Rightarrow> CardDetails \<Rightarrow> error + unit" where
  "CardDetails_validate year cd =
     (if \<not> match_digits 16 (card_number cd) then
        Inl (ValueError ''Card number must be 16 digits'')
      else if \<not> match_month (expiry_month cd) then
        Inl (ValueError ''Invalid expiry month'')
      else if \<not> match_digits 4 (expiry_year cd) then
        Inl (ValueError ''Invalid expiry year'')
      else (case py_int (expiry_year cd) of
              None \<Rightarrow> Inl (IntValueError (expiry_year cd))
            | Some y \<Rightarrow>
                if y < year then Inl (ValueError ''Invalid expiry year'')
                else if \<not> match_cvv (cvv cd) then
                  Inl (ValueError ''CVV must be 3 or 4 digits'')
                else Inr ()))"

text \<open>\<^verbatim>\<open>PaymentRequest.validate\<close> (app.py 76-81).\<close>

definition PaymentRequest_validate :: "int \<Rightarrow> PaymentRequest \<Rightarrow> error + unit" where
  "PaymentRequest_validate year req =
     (if req_amount req \<le> 0 then Inl (ValueError ''Amount must be greater than 0'')
      else (case req_card_details req of
              None \<Rightarrow> Inl (ValueError ''Invalid card details'')
            | Some cd \<Rightarrow> CardDetails_validate year cd))"

text \<open>\<^verbatim>\<open>validate_api_key\<close> (app.py 84-87); the header may be missing.\<close>

definition expected_api_key :: "env \<Rightarrow> string" where
  "expected_api_key e = (case getenv_API_KEY e of None \<Rightarrow> ''sk_test_123'' | Some k \<Rightarrow> k)"

definition validate_api_key :: "env \<Rightarrow> string option \<Rightarrow> error + unit" where
  "validate_api_key e api_key =
     (if api_key \<noteq> Some (expected_api_key e) then Inl (ValueError ''Invalid API key'')
      else Inr ())"

text \<open>\<^verbatim>\<open>get_last_four_digits\<close> (app.py 89-91): the slice \<^verbatim>\<open>card_number[-4:]\<close>.\<close>

definition get_last_four_digits :: "string \<Rightarrow> string" where
  "get_last_four_digits s = drop (length s - 4) s"

definition startswith :: "string \<Rightarrow> string \<Rightarrow> bool" where
  "startswith s pre = (take (length pre) s = pre)"

section \<open>The store\<close>

text \<open>
  The table is the list of its rows in insertion order. \<open>db_get\<close> is the row the table
  holds under a primary key.
\<close>

definition db_get :: "Payment list \<Rightarrow> string \<Rightarrow> Payment option" where
  "db_get rows pid = find (\<lambda>p. payment_id p = pid) rows"

text \<open>
  Reading a row into a \<^verbatim>\<open>Payment\<close> object. The column type \<^verbatim>\<open>SQLEnum(Currency)\<close>
  turns the stored text into the member of that name and raises \<^verbatim>\<open>LookupError\<close> when
  there is none; the table itself takes any text (the type writes an unknown string as
  it is, and the table has no constraint on the column).
\<close>

definition loadable :: "Payment \<Rightarrow> bool" where
  "loadable p = (currency p \<in> set (map Currency_name [USD, UGX, KES]))"

definition db_load :: "Payment \<Rightarrow> error + Payment" where
  "db_load p = (if loadable p then Inr p else Inl OtherException)"

text \<open>\<^verbatim>\<open>db.session.get(Payment, payment_id)\<close>: \<^verbatim>\<open>None\<close> when no row has the key.\<close>

definition session_get :: "Payment list \<Rightarrow> string \<Rightarrow> error + Payment option" where
  "session_get rows pid =
     (case db_get rows pid of
        None \<Rightarrow> Inr None
      | Some p \<Rightarrow> (case db_load p of Inl err \<Rightarrow> Inl err | Inr payment \<Rightarrow> Inr (Some payment)))"

text \<open>
  \<^verbatim>\<open>db.session.add(payment); db.session.commit()\<close>: the table refuses a second row
  with the same primary key, and the exception raised then is not a \<^verbatim>\<open>ValueError\<close>;
  any other row it takes.
\<close>

definition db_add_commit :: "Payment \<Rightarrow> Payment list \<Rightarrow> error + Payment list" where
  "db_add_commit p rows =
     (if payment_id p \<in> set (map payment_id rows) then Inl OtherException
      else Inr (rows @ [p]))"

text \<open>The assignment \<^verbatim>\<open>payment.status = ...\<close> on the row loaded by key, committed.\<close>

fun db_set_status :: "string \<Rightarrow> PaymentStatus \<Rightarrow> Payment list \<Rightarrow> Payment list" where
  "db_set_status pid st [] = []"
| "db_set_status pid st (p # ps) =
     (if payment_id p = pid then p\<lparr>status := st\<rparr> # ps else p # db_set_status pid st ps)"

definition in_int64 :: "int \<Rightarrow> bool" where
  "in_int64 i = (- (2 ^ 63) \<le> i \<and> i < 2 ^ 63)"

text \<open>
  The rows the statement \<^verbatim>\<open>db.select(Payment).offset(offset).limit(limit)\<close> selects on
  the SQLite database the program configures (app.py 16): a negative LIMIT puts no
  bound on the number of rows and a negative OFFSET skips none.
\<close>

definition select_rows :: "int \<Rightarrow> int \<Rightarrow> Payment list \<Rightarrow> Payment list" where
  "select_rows offset limit rows =
     (let rest = drop (nat offset) rows
      in if limit < 0 then rest else take (nat limit) rest)"

text \<open>
  \<^verbatim>\<open>db.session.execute(...).scalars().all()\<close>: a number outside 64 bits cannot be
  bound to the statement, and every selected row is read into an object.
\<close>

definition db_select :: "int \<Rightarrow> int \<Rightarrow> Payment list \<Rightarrow> error + Payment list" where
  "db_select offset limit rows =
     (if in_int64 offset \<and> in_int64 limit
      then (if list_all loadable (select_rows offset limit rows)
            then Inr (select_rows offset limit rows)
            else Inl OtherException)
      else Inl OtherException)"

section \<open>The endpoints\<close>

text \<open>The two \<^verbatim>\<open>except\<close> clauses every handler ends with.\<close>

fun error_response :: "error \<Rightarrow> response" where
  "error_response (ValueError msg) = (400, Detail msg)"
| "error_response (IntValueError s) = (400, IntErrorDetail s)"
| "error_response OtherException = (500, Detail ''Internal server error'')"

text \<open>
  The objects \<^verbatim>\<open>create_payment\<close> builds from the body before it validates anything
  (app.py 103-116): a missing key raises \<^verbatim>\<open>KeyError\<close>.
\<close>

definition card_details_of :: "card_data \<Rightarrow> error + CardDetails" where
  "card_details_of c =
     (case (data_card_number c, data_expiry_month c, data_expiry_year c, data_cvv c,
            data_cardholder_name c) of
        (Some n, Some m, Some y, Some v, Some h) \<Rightarrow>
          Inr \<lparr> card_number = n, expiry_month = m, expiry_year = y, cvv = v,
                cardholder_name = h \<rparr>
      | _ \<Rightarrow> Inl OtherException)"

definition payment_request_of :: "payment_data \<Rightarrow> error + PaymentRequest" where
  "payment_request_of d =
     (case data_card_details d of
        None \<Rightarrow> Inl OtherException
      | Some c \<Rightarrow>
     (case card_details_of c of
        Inl err \<Rightarrow> Inl err
      | Inr cd \<Rightarrow>
     (case (data_amount d, data_currency d) of
        (Some a, Some cur) \<Rightarrow>
          Inr \<lparr> req_amount = a, req_currency = cur, req_description = data_description d,
                req_metadata = data_metadata d, req_card_details = Some cd \<rparr>
      | _ \<Rightarrow> Inl OtherException)))"

definition new_payment :: "env \<Rightarrow> PaymentRequest \<Rightarrow> CardDetails \<Rightarrow> Payment" where
  "new_payment e req cd =
     \<lparr> payment_id = uuid4 e,
       amount = req_amount req,
       currency = req_currency req,
       status = SUCCEEDED,
       created_at = utcnow e,
       description = req_description req,
       payment_metadata = req_metadata req,
       last_four = get_last_four_digits (card_number cd) \<rparr>"

text \<open>
  \<^verbatim>\<open>create_payment\<close> (app.py 94-153) on the body it receives. A handler takes the
  table and returns its response with the table after the call. The response is built
  from the attributes of the committed object (app.py 138-147), which are read back
  from the table; when that raises, the \<^verbatim>\<open>except\<close> clause rolls back a session that
  has nothing left to undo, and the row stays.
\<close>

definition create_payment_json ::
  "env \<Rightarrow> string option \<Rightarrow> payment_data \<Rightarrow> Payment list \<Rightarrow> response \<times> Payment list" where
  "create_payment_json e api_key d rows =
     (case validate_api_key e api_key of
        Inl err \<Rightarrow> (error_response err, rows)
      | Inr _ \<Rightarrow>
     (case payment_request_of d of
        Inl err \<Rightarrow> (error_response err, rows)
      | Inr req \<Rightarrow>
     (case PaymentRequest_validate (now_year e) req of
        Inl err \<Rightarrow> (error_response err, rows)
      | Inr _ \<Rightarrow>
     (case req_card_details req of
        None \<Rightarrow> (error_response OtherException, rows)
      | Some cd \<Rightarrow>
          if \<not> startswith (card_number cd) ''4111'' then ((400, Detail ''Card declined''), rows)
          else (case db_add_commit (new_payment e req cd) rows of
                  Inl err \<Rightarrow> (error_response err, rows)
                | Inr rows' \<Rightarrow>
                    (case db_load (new_payment e req cd) of
                       Inl err \<Rightarrow> (error_response err, rows')
                     | Inr payment \<Rightarrow> ((201, PaymentJson payment), rows')))))))"

text \<open>
  The body that carries the fields of a request object: every key the handler reads is
  there, unless the object has no card details, in which case the body has no
  \<^verbatim>\<open>card_details\<close>.
\<close>

definition data_of :: "PaymentRequest \<Rightarrow> payment_data" where
  "data_of req =
     \<lparr> data_amount = Some (req_amount req),
       data_currency = Some (req_currency req),
       data_description = req_description req,
       data_metadata = req_metadata req,
       data_card_details =
         map_option
           (\<lambda>cd. \<lparr> data_card_number = Some (card_number cd),
                    data_expiry_month = Some (expiry_month cd),
                    data_expiry_year = Some (expiry_year cd),
                    data_cvv = Some (cvv cd),
                    data_cardholder_name = Some (cardholder_name cd) \<rparr>)
           (req_card_details req) \<rparr>"

text \<open>\<^verbatim>\<open>create_payment\<close> on the body that carries the fields of a request object.\<close>

definition create_payment ::
  "env \<Rightarrow> string option \<Rightarrow> PaymentRequest \<Rightarrow> Payment list \<Rightarrow> response \<times> Payment list" where
  "create_payment e api_key req rows = create_payment_json e api_key (data_of req) rows"

text \<open>\<^verbatim>\<open>get_payment\<close> (app.py 155-179).\<close>

definition get_payment ::
  "env \<Rightarrow> string option \<Rightarrow> string \<Rightarrow> Payment list \<Rightarrow> response \<times> Payment list" where
  "get_payment e api_key pid rows =
     (case validate_api_key e api_key of
        Inl err \<Rightarrow> (error_response err, rows)
      | Inr _ \<Rightarrow>
     (case session_get rows pid of
        Inl err \<Rightarrow> (error_response err, rows)
      | Inr None \<Rightarrow> ((404, Detail ''Payment not found''), rows)
      | Inr (Some payment) \<Rightarrow> ((200, PaymentJson payment), rows)))"

text \<open>
  \<^verbatim>\<open>refund_payment\<close> (app.py 181-218). \<^verbatim>\<open>refund_amount\<close> is \<^verbatim>\<open>data.get('amount')\<close>:
  \<^verbatim>\<open>None\<close> or a number; as the left operand of \<^verbatim>\<open>and\<close> a number counts as true
  unless it is zero.
\<close>

definition refund_payment ::
  "env \<Rightarrow> string option \<Rightarrow> string \<Rightarrow> real option \<Rightarrow> Payment list \<Rightarrow> response \<times> Payment list" where
  "refund_payment e api_key pid refund_amount rows =
     (case validate_api_key e api_key of
        Inl err \<Rightarrow> (error_response err, rows)
      | Inr _ \<Rightarrow>
     (case session_get rows pid of
        Inl err \<Rightarrow> (error_response err, rows)
      | Inr None \<Rightarrow> ((404, Detail ''Payment not found''), rows)
      | Inr (Some payment) \<Rightarrow>
          if status payment \<noteq> SUCCEEDED then
            ((400, Detail ''Payment cannot be refunded''), rows)
          else if (case refund_amount of None \<Rightarrow> False
                   | Some r \<Rightarrow> r \<noteq> 0 \<and> r > amount payment) then
            ((400, Detail ''Refund amount exceeds payment amount''), rows)
          else ((200, PaymentJson (payment\<lparr>status := REFUNDED\<rparr>)),
                db_set_status pid REFUNDED rows)))"

text \<open>
  \<^verbatim>\<open>int(request.args.get(name, default))\<close>: the query argument is a string when given.
\<close>

definition int_arg :: "string option \<Rightarrow> int \<Rightarrow> error + int" where
  "int_arg arg dflt =
     (case arg of
        None \<Rightarrow> Inr dflt
      | Some s \<Rightarrow> (case py_int s of None \<Rightarrow> Inl (IntValueError s) | Some i \<Rightarrow> Inr i))"

text \<open>\<^verbatim>\<open>list_payments\<close> (app.py 220-250).\<close>

definition list_payments ::
  "env \<Rightarrow> string option \<Rightarrow> string option \<Rightarrow> string option \<Rightarrow> Payment list
     \<Rightarrow> response \<times> Payment list" where
  "list_payments e api_key limit_arg offset_arg rows =
     (case validate_api_key e api_key of
        Inl err \<Rightarrow> (error_response err, rows)
      | Inr _ \<Rightarrow>
     (case int_arg limit_arg 10 of
        Inl err \<Rightarrow> (error_response err, rows)
      | Inr limit \<Rightarrow>
     (case int_arg offset_arg 0 of
        Inl err \<Rightarrow> (error_response err, rows)
      | Inr offset \<Rightarrow>
     (case db_select offset limit rows of
        Inl err \<Rightarrow> (error_response err, rows)
      | Inr payments \<Rightarrow> ((200, PaymentListJson payments), rows)))))"

section \<open>Sequences of requests\<close>

datatype request =
    CreatePayment "string option" payment_data
  | GetPayment "string option" string
  | RefundPayment "string option" string "real option"
  | ListPayments "string option" "string option" "string option"

fun handle :: "env \<Rightarrow> request \<Rightarrow> Payment list \<Rightarrow> response \<times> Payment list" where
  "handle e (CreatePayment k d) rows = create_payment_json e k d rows"
| "handle e (GetPayment k pid) rows = get_payment e k pid rows"
| "handle e (RefundPayment k pid amt) rows = refund_payment e k pid amt rows"
| "handle e (ListPayments k l off) rows = list_payments e k l off rows"

text \<open>The table after a sequence of requests, each served in its own environment.\<close>

fun run :: "(env \<times> request) list \<Rightarrow> Payment list \<Rightarrow> Payment list" where
  "run [] rows = rows"
| "run ((e, r) # calls) rows = run calls (snd (handle e r rows))"

text \<open>The tables the program can bring about, starting from the empty one.\<close>

inductive reachable :: "Payment list \<Rightarrow> bool" where
  reachable_init: "reachable []"
| reachable_step: "reachable rows \<Longrightarrow> reachable (snd (handle e r rows))"

section \<open>The data of the test suite\<close>

text \<open>The fixtures \<^verbatim>\<open>valid_payment_data\<close> and \<^verbatim>\<open>auth_headers\<close> of test_app.py.\<close>

definition test_card :: CardDetails where
  "test_card =
     \<lparr> card_number = ''4111111111111111'', expiry_month = ''12'', expiry_year = ''2027'',
       cvv = ''123'', cardholder_name = ''Test User'' \<rparr>"

definition valid_payment_data :: PaymentRequest where
  "valid_payment_data =
     \<lparr> req_amount = 1000, req_currency = ''USD'', req_description = Some ''Test payment'',
       req_metadata = JObj [(''order_id'', JStr ''12345'')],
       req_card_details = Some test_card \<rparr>"

definition auth_headers :: "string option" where
  "auth_headers = Some ''sk_test_123''"

definition declined_payment_data :: PaymentRequest where
  "declined_payment_data =
     valid_payment_data\<lparr>req_card_details := Some (test_card\<lparr>card_number := ''5555555555554444''\<rparr>)\<rparr>"

definition test_env :: "string \<Rightarrow> env" where
  "test_env new_id =
     \<lparr> getenv_API_KEY = None, now_year = 2026, uuid4 = new_id, utcnow = 0 \<rparr>"

text \<open>The row the program stores for \<open>valid_payment_data\<close> under the identifier given.\<close>

definition stored_test_payment :: "string \<Rightarrow> Payment" where
  "stored_test_payment new_id = new_payment (test_env new_id) valid_payment_data test_card"

text \<open>
  The same request with a currency that is not a member of \<^verbatim>\<open>Currency\<close>, and the row
  the program stores for it.
\<close>

definition eur_payment_data :: PaymentRequest where
  "eur_payment_data = valid_payment_data\<lparr>req_currency := ''EUR''\<rparr>"

definition stored_eur_payment :: "string \<Rightarrow> Payment" where
  "stored_eur_payment new_id = new_payment (test_env new_id) eur_payment_data test_card"

section \<open>Invariant of the table\<close>

text \<open>
  What holds of every row the program has written: a positive amount, a status that is
  \<open>SUCCEEDED\<close> or \<open>REFUNDED\<close>, four characters in \<open>last_four\<close>.
\<close>

definition row_ok :: "Payment \<Rightarrow> bool" where
  "row_ok p =
     (0 < amount p \<and> (status p = SUCCEEDED \<or> status p = REFUNDED) \<and> length (last_four p) = 4)"

section \<open>Lemmas on the store and the handlers\<close>

lemma is_double_of_int: "\<bar>i\<bar> < 2 ^ 53 \<Longrightarrow> is_double (of_int i)"
  unfolding is_double_def by (intro exI [of _ i] exI [of _ 0]) simp

lemma is_number_of_int [simp]: "is_number (of_int i)"
  by (simp add: is_number_def)

lemma validate_api_key_expected [simp]:
  "validate_api_key e (Some (expected_api_key e)) = Inr ()"
  by (simp add: validate_api_key_def)

lemma validate_api_key_cases:
  "validate_api_key e k = Inr () \<or> validate_api_key e k = Inl (ValueError ''Invalid API key'')"
  by (simp add: validate_api_key_def)

lemma db_get_Some: "db_get rows pid = Some p \<Longrightarrow> p \<in> set rows \<and> payment_id p = pid"
  unfolding db_get_def by (induction rows) (auto split: if_splits)

lemma db_get_append: "db_get rows pid = Some p \<Longrightarrow> db_get (rows @ qs) pid = Some p"
  unfolding db_get_def by (induction rows) auto

lemma db_get_set_status_same:
  "db_get rows pid = Some p \<Longrightarrow>
     db_get (db_set_status pid st rows) pid = Some (p\<lparr>status := st\<rparr>)"
  unfolding db_get_def by (induction rows) auto

lemma db_get_set_status_other:
  "pid' \<noteq> pid \<Longrightarrow> db_get (db_set_status pid st rows) pid' = db_get rows pid'"
  unfolding db_get_def by (induction rows) auto

lemma length_db_set_status [simp]: "length (db_set_status pid st rows) = length rows"
  by (induction rows) auto

lemma map_payment_id_db_set_status [simp]:
  "map payment_id (db_set_status pid st rows) = map payment_id rows"
  by (induction rows) auto

lemma set_db_set_status:
  "q \<in> set (db_set_status pid st rows) \<Longrightarrow>
     q \<in> set rows \<or> (\<exists>p \<in> set rows. q = p\<lparr>status := st\<rparr>)"
  by (induction rows) (auto split: if_splits)

lemma loadable_status [simp]: "loadable (p\<lparr>status := st\<rparr>) = loadable p"
  by (simp add: loadable_def)

lemma session_get_loadable:
  "db_get rows pid = Some p \<Longrightarrow> loadable p \<Longrightarrow> session_get rows pid = Inr (Some p)"
  by (simp add: session_get_def db_load_def)

lemma session_get_not_loadable:
  "db_get rows pid = Some p \<Longrightarrow> \<not> loadable p \<Longrightarrow> session_get rows pid = Inl OtherException"
  by (simp add: session_get_def db_load_def)

lemma session_get_Some:
  "session_get rows pid = Inr (Some p) \<Longrightarrow> db_get rows pid = Some p \<and> loadable p"
  by (auto simp: session_get_def db_load_def split: option.splits if_splits)

lemma session_get_Inl: "session_get rows pid = Inl err \<Longrightarrow> err = OtherException"
  by (auto simp: session_get_def db_load_def split: option.splits if_splits)

lemma CardDetails_validate_length:
  "CardDetails_validate year cd = Inr () \<Longrightarrow> 16 \<le> length (card_number cd)"
  by (auto simp: CardDetails_validate_def match_digits_def split: if_splits)

lemma PaymentRequest_validate_Inr:
  "PaymentRequest_validate year req = Inr () \<Longrightarrow>
     0 < req_amount req
     \<and> (\<exists>cd. req_card_details req = Some cd \<and> CardDetails_validate year cd = Inr ())"
  by (auto simp: PaymentRequest_validate_def split: if_splits option.splits)

lemma length_get_last_four_digits:
  "4 \<le> length s \<Longrightarrow> length (get_last_four_digits s) = 4"
  by (simp add: get_last_four_digits_def)

lemma db_add_commit_Inl: "db_add_commit p rows = Inl err \<Longrightarrow> err = OtherException"
  by (simp add: db_add_commit_def split: if_splits)

lemma payment_id_new_payment [simp]: "payment_id (new_payment e req cd) = uuid4 e"
  by (simp add: new_payment_def)

lemma error_response_status: "fst (error_response err) = 400 \<or> fst (error_response err) = 500"
  by (cases err) simp_all

lemma error_response_not_201 [simp]: "error_response err \<noteq> (201, b)"
  using error_response_status [of err] by auto

lemma error_response_not_200 [simp]: "error_response err \<noteq> (200, b)"
  using error_response_status [of err] by auto

text \<open>A body that carries every key gives back the request object it was made from.\<close>

lemma payment_request_of_data_of:
  "payment_request_of (data_of req) =
     (case req_card_details req of None \<Rightarrow> Inl OtherException | Some cd \<Rightarrow> Inr req)"
  by (cases "req_card_details req")
     (simp_all add: payment_request_of_def data_of_def card_details_of_def)


lemma payment_request_of_Inr:
  "payment_request_of d = Inr req \<Longrightarrow> \<exists>cd. req_card_details req = Some cd"
  by (auto simp: payment_request_of_def split: option.splits sum.splits prod.splits)

text \<open>The handler on a request object, spelt out.\<close>

lemma create_payment_unfold:
  "create_payment e api_key req rows =
     (case validate_api_key e api_key of
        Inl err \<Rightarrow> (error_response err, rows)
      | Inr _ \<Rightarrow>
     (case req_card_details req of
        None \<Rightarrow> (error_response OtherException, rows)
      | Some cd \<Rightarrow>
     (case PaymentRequest_validate (now_year e) req of
        Inl err \<Rightarrow> (error_response err, rows)
      | Inr _ \<Rightarrow>
          if \<not> startswith (card_number cd) ''4111'' then ((400, Detail ''Card declined''), rows)
          else (case db_add_commit (new_payment e req cd) rows of
                  Inl err \<Rightarrow> (error_response err, rows)
                | Inr rows' \<Rightarrow>
                    (case db_load (new_payment e req cd) of
                       Inl err \<Rightarrow> (error_response err, rows')
                     | Inr payment \<Rightarrow> ((201, PaymentJson payment), rows'))))))"
  by (cases "req_card_details req")
     (simp_all add: create_payment_def create_payment_json_def payment_request_of_data_of
       split: sum.splits)

lemma create_payment_json_rows:
  "snd (create_payment_json e k d rows) = rows \<or>
   (\<exists>req cd. payment_request_of d = Inr req \<and> req_card_details req = Some cd
      \<and> PaymentRequest_validate (now_year e) req = Inr ()
      \<and> uuid4 e \<notin> set (map payment_id rows)
      \<and> snd (create_payment_json e k d rows) = rows @ [new_payment e req cd])"
  by (auto simp: create_payment_json_def db_add_commit_def
      split: sum.splits option.splits if_splits)

lemma create_payment_rows:
  "snd (create_payment e k req rows) = rows \<or>
   (\<exists>cd. req_card_details req = Some cd \<and> PaymentRequest_validate (now_year e) req = Inr ()
      \<and> uuid4 e \<notin> set (map payment_id rows)
      \<and> snd (create_payment e k req rows) = rows @ [new_payment e req cd])"
  by (auto simp: create_payment_unfold db_add_commit_def
      split: sum.splits option.splits if_splits)

lemma create_payment_201:
  assumes "create_payment e k req rows = ((201, b), rows')"
  shows "\<exists>cd. req_card_details req = Some cd
     \<and> PaymentRequest_validate (now_year e) req = Inr ()
     \<and> startswith (card_number cd) ''4111'' \<and> loadable (new_payment e req cd)
     \<and> rows' = rows @ [new_payment e req cd] \<and> b = PaymentJson (new_payment e req cd)"
  using assms
  by (auto simp: create_payment_unfold db_add_commit_def db_load_def
      split: sum.splits option.splits if_splits)

lemma refund_payment_rows:
  "snd (refund_payment e k pid amt rows) = rows \<or>
   snd (refund_payment e k pid amt rows) = db_set_status pid REFUNDED rows"
  by (auto simp: refund_payment_def split: sum.splits option.splits)

lemma get_payment_rows [simp]: "snd (get_payment e k pid rows) = rows"
  by (auto simp: get_payment_def split: sum.splits option.splits)

lemma list_payments_rows [simp]: "snd (list_payments e k l off rows) = rows"
  by (auto simp: list_payments_def split: sum.splits option.splits)

lemma new_payment_props:
  "PaymentRequest_validate year req = Inr () \<Longrightarrow> req_card_details req = Some cd \<Longrightarrow>
     0 < amount (new_payment e req cd) \<and> status (new_payment e req cd) = SUCCEEDED
     \<and> length (last_four (new_payment e req cd)) = 4"
  using CardDetails_validate_length [of year cd]
  by (auto simp: new_payment_def dest!: PaymentRequest_validate_Inr
      intro!: length_get_last_four_digits)

lemma handle_preserves_rows_ok:
  assumes "\<forall>p \<in> set rows. row_ok p"
  shows "\<forall>p \<in> set (snd (handle e r rows)). row_ok p"
proof (cases r)
  case (CreatePayment k d)
  show ?thesis
    using create_payment_json_rows [of e k d rows] assms CreatePayment
    by (auto simp: row_ok_def dest: new_payment_props)
next
  case (RefundPayment k pid amt)
  show ?thesis
    using refund_payment_rows [of e k pid amt rows] assms RefundPayment
    by (auto simp: row_ok_def dest!: set_db_set_status)
qed (use assms in auto)

lemma reachable_rows_ok: "reachable rows \<Longrightarrow> \<forall>p \<in> set rows. row_ok p"
  by (induction rule: reachable.induct) (simp_all add: handle_preserves_rows_ok)

lemma reachable_distinct: "reachable rows \<Longrightarrow> distinct (map payment_id rows)"
proof (induction rule: reachable.induct)
  case reachable_init
  show ?case by simp
next
  case (reachable_step rows e r)
  show ?case
  proof (cases r)
    case (CreatePayment k d)
    then show ?thesis
      using create_payment_json_rows [of e k d rows] reachable_step.IH by auto
  next
    case (RefundPayment k pid amt)
    then show ?thesis
      using refund_payment_rows [of e k pid amt rows] reachable_step.IH by auto
  qed (use reachable_step.IH in auto)
qed

text \<open>No request changes a row that is not \<open>SUCCEEDED\<close>.\<close>

lemma handle_keeps_settled:
  assumes "db_get rows pid = Some q" and "status q \<noteq> SUCCEEDED"
  shows "db_get (snd (handle e r rows)) pid = Some q"
proof (cases r)
  case (CreatePayment k d)
  then show ?thesis
    using create_payment_json_rows [of e k d rows] assms by (auto simp: db_get_append)
next
  case (RefundPayment k pid' amt)
  show ?thesis
  proof (cases "pid' = pid")
    case True
    then show ?thesis
      using assms RefundPayment
      by (auto simp: refund_payment_def dest: session_get_Some split: sum.splits option.splits)
  next
    case False
    then show ?thesis
      using refund_payment_rows [of e k pid' amt rows] assms RefundPayment
      by (auto simp: db_get_set_status_other)
  qed
qed (use assms in auto)

lemma run_keeps_settled:
  "db_get rows pid = Some q \<Longrightarrow> status q \<noteq> SUCCEEDED \<Longrightarrow> db_get (run calls rows) pid = Some q"
  by (induction calls rows rule: run.induct) (simp_all add: handle_keeps_settled)

subsection \<open>Integer parsing of digit strings\<close>

text \<open>
  A field that matches a pattern of digits is read by \<^verbatim>\<open>int()\<close> as the number its
  digits write, so the conversion of the expiry year never raises.
\<close>

lemma is_digit_plain:
  "is_digit c \<Longrightarrow> \<not> int_isspace c \<and> c \<noteq> CHR ''-'' \<and> c \<noteq> CHR ''+'' \<and> c \<noteq> CHR ''_''"
  by (auto simp: is_digit_def int_isspace_def)

lemma dropWhile_space_digits:
  "list_all is_digit ds \<Longrightarrow> dropWhile int_isspace ds = ds"
  by (cases ds) (simp_all add: is_digit_plain)

lemma strip_digits: "list_all is_digit ds \<Longrightarrow> strip ds = ds"
  by (simp add: strip_def dropWhile_space_digits list_all_iff)

lemma strip_digits_newline: "list_all is_digit ds \<Longrightarrow> strip (ds @ [CHR 0x0A]) = ds"
  by (simp add: strip_def dropWhile_space_digits list_all_iff int_isspace_def)

lemma int_body_ok_digits: "list_all is_digit ds \<Longrightarrow> int_body_ok prev ds = (prev \<or> ds \<noteq> [])"
  by (induction ds arbitrary: prev) auto

lemma py_int_of_stripped:
  assumes "list_all is_digit ds" and "ds \<noteq> []" and "strip s = ds"
    and "length ds \<le> int_max_str_digits"
  shows "py_int s = Some (digits_to_int ds)"
proof -
  have "is_digit (hd ds)"
    using assms(1,2) by (cases ds) simp_all
  then have "hd ds \<noteq> CHR ''-''" and "hd ds \<noteq> CHR ''+''"
    using is_digit_plain by blast+
  moreover have "filter is_digit ds = ds"
    using assms(1) by (simp add: list_all_iff)
  ultimately show ?thesis
    using assms by (simp add: py_int_def int_body_ok_digits)
qed

lemma py_int_too_long:
  assumes "list_all is_digit ds" and "int_max_str_digits < length ds"
  shows "py_int ds = None"
proof -
  have "filter is_digit ds = ds"
    using assms(1) by (simp add: list_all_iff)
  moreover have "ds \<noteq> []"
    using assms(2) by auto
  then have "is_digit (hd ds)"
    using assms(1) by (cases ds) simp_all
  then have "hd ds \<noteq> CHR ''-''" and "hd ds \<noteq> CHR ''+''"
    using is_digit_plain by blast+
  ultimately show ?thesis
    using assms by (simp add: py_int_def strip_digits)
qed

lemma match_digits_cases:
  assumes "match_digits n s"
  shows "list_all is_digit (take n s) \<and> length (take n s) = n
     \<and> (s = take n s \<or> s = take n s @ [CHR 0x0A])"
proof -
  have "s = take n s @ drop n s"
    by simp
  then show ?thesis
    using assms unfolding match_digits_def at_end_def by (metis append_Nil2)
qed

lemma py_int_match_digits:
  assumes "match_digits n s" and "0 < n" and "n \<le> int_max_str_digits"
  shows "py_int s = Some (digits_to_int (take n s))"
proof -
  let ?ds = "take n s"
  have ds: "list_all is_digit ?ds" and len: "length ?ds = n"
    and s: "s = ?ds \<or> s = ?ds @ [CHR 0x0A]"
    using match_digits_cases [OF assms(1)] by simp_all
  have "?ds \<noteq> []"
    using len assms(2) by auto
  moreover have "strip s = ?ds"
    using s strip_digits [OF ds] strip_digits_newline [OF ds] by metis
  moreover have "length ?ds \<le> int_max_str_digits"
    using len assms(3) by simp
  ultimately show ?thesis
    using ds by (simp add: py_int_of_stripped)
qed

lemma py_int_year:
  "match_digits 4 s \<Longrightarrow> py_int s = Some (digits_to_int (take 4 s))"
  by (rule py_int_match_digits) (simp_all add: int_max_str_digits_def)

subsection \<open>The fixtures evaluated\<close>

lemmas validate_defs =
  PaymentRequest_validate_def CardDetails_validate_def match_digits_def match_month_def
  match_cvv_def is_digit_def at_end_def py_int_def strip_def int_isspace_def digits_to_int_def
  int_max_str_digits_def

lemma expected_api_key_test_env [simp]: "expected_api_key (test_env i) = ''sk_test_123''"
  by (simp add: expected_api_key_def test_env_def)

lemma test_env_simps [simp]:
  "now_year (test_env i) = 2026" "uuid4 (test_env i) = i" "utcnow (test_env i) = 0"
  by (simp_all add: test_env_def)

lemma valid_payment_data_validates:
  "PaymentRequest_validate 2026 valid_payment_data = Inr ()"
  by (simp add: validate_defs valid_payment_data_def test_card_def)

lemma declined_payment_data_validates:
  "PaymentRequest_validate 2026 declined_payment_data = Inr ()"
  by (simp add: validate_defs declined_payment_data_def valid_payment_data_def test_card_def)

lemma eur_payment_data_validates:
  "PaymentRequest_validate 2026 eur_payment_data = Inr ()"
  by (simp add: validate_defs eur_payment_data_def valid_payment_data_def test_card_def)

lemma stored_test_payment_simps [simp]:
  "payment_id (stored_test_payment i) = i" "amount (stored_test_payment i) = 1000"
  "status (stored_test_payment i) = SUCCEEDED" "loadable (stored_test_payment i)"
  by (simp_all add: stored_test_payment_def new_payment_def valid_payment_data_def loadable_def)

lemma stored_eur_payment_simps [simp]:
  "payment_id (stored_eur_payment i) = i" "amount (stored_eur_payment i) = 1000"
  "status (stored_eur_payment i) = SUCCEEDED" "\<not> loadable (stored_eur_payment i)"
  "currency (stored_eur_payment i) = ''EUR''"
  by (simp_all add: stored_eur_payment_def new_payment_def eur_payment_data_def
      valid_payment_data_def loadable_def)

lemma create_valid_payment_data:
  "create_payment (test_env i) auth_headers valid_payment_data rows =
     ((201, PaymentJson (stored_test_payment i)), rows @ [stored_test_payment i])"
  if "i \<notin> set (map payment_id rows)"
proof -
  have "req_card_details valid_payment_data = Some test_card"
    by (simp add: valid_payment_data_def)
  moreover have "startswith (card_number test_card) ''4111''"
    by (simp add: startswith_def test_card_def)
  moreover have "loadable (new_payment (test_env i) valid_payment_data test_card)"
    using stored_test_payment_simps(4) [of i] by (simp add: stored_test_payment_def)
  ultimately show ?thesis
    using that valid_payment_data_validates
    by (simp add: create_payment_unfold auth_headers_def validate_api_key_def
        db_add_commit_def db_load_def stored_test_payment_def)
qed

text \<open>
  The request with the currency EUR: the row is committed, reading it back raises, and
  the answer is 500 with the row in the table.
\<close>

lemma create_eur_payment_data:
  "create_payment (test_env i) auth_headers eur_payment_data rows =
     ((500, Detail ''Internal server error''), rows @ [stored_eur_payment i])"
  if "i \<notin> set (map payment_id rows)"
proof -
  have "req_card_details eur_payment_data = Some test_card"
    by (simp add: eur_payment_data_def valid_payment_data_def)
  moreover have "startswith (card_number test_card) ''4111''"
    by (simp add: startswith_def test_card_def)
  moreover have "\<not> loadable (new_payment (test_env i) eur_payment_data test_card)"
    using stored_eur_payment_simps(4) [of i] by (simp add: stored_eur_payment_def)
  ultimately show ?thesis
    using that eur_payment_data_validates
    by (simp add: create_payment_unfold auth_headers_def validate_api_key_def
        db_add_commit_def db_load_def stored_eur_payment_def)
qed

lemma reachable_create_payment:
  "reachable rows \<Longrightarrow> reachable (snd (create_payment e k req rows))"
  using reachable_step [of rows e "CreatePayment k (data_of req)"]
  by (simp add: create_payment_def)

lemma reachable_one: "reachable [stored_test_payment ''p1'']"
  using reachable_create_payment [OF reachable_init, of "test_env ''p1''" auth_headers
      valid_payment_data]
  by (simp add: create_valid_payment_data)

lemma reachable_eur: "reachable [stored_eur_payment ''p1'']"
  using reachable_create_payment [OF reachable_init, of "test_env ''p1''" auth_headers
      eur_payment_data]
  by (simp add: create_eur_payment_data)

lemma db_get_one [simp]:
  "db_get [stored_test_payment ''p1''] ''p1'' = Some (stored_test_payment ''p1'')"
  by (simp add: db_get_def)

lemma db_get_eur [simp]:
  "db_get [stored_eur_payment ''p1''] ''p1'' = Some (stored_eur_payment ''p1'')"
  by (simp add: db_get_def)

section \<open>Creating a payment\<close>

text \<open>
  C1, as stated, at a concrete input: the request of the test suite with the currency
  EUR passes validation and its card number starts with 4111, yet the call does not
  return the record. The row is stored and the answer is 500.
\<close>

theorem create_payment_unlisted_currency_counterexample:
  "PaymentRequest_validate (now_year (test_env ''p1''))
     (valid_payment_data\<lparr>req_currency := ''EUR''\<rparr>) = Inr ()
   \<and> req_card_details (valid_payment_data\<lparr>req_currency := ''EUR''\<rparr>) = Some test_card
   \<and> startswith (card_number test_card) ''4111''
   \<and> create_payment (test_env ''p1'') auth_headers (valid_payment_data\<lparr>req_currency := ''EUR''\<rparr>) []
       = ((500, Detail ''Internal server error''), [stored_eur_payment ''p1''])"
  using create_eur_payment_data [of "''p1''" "[]"] eur_payment_data_validates
  by (simp add: eur_payment_data_def valid_payment_data_def startswith_def test_card_def)

text \<open>
  C1, amended. For a request that passes validation, sent with the configured key: when
  the card number starts with 4111, the currency is the name of a member of
  \<open>Currency\<close>, the amount is a double and the generated identifier is new, the answer
  is 201 with the record, and that record is appended to the table with status
  \<open>SUCCEEDED\<close>, the generated identifier and time, the request's amount, currency,
  description and metadata and the last four characters of the card number; when the
  card number does not start with 4111 the answer is 400 with detail "Card declined"
  and the table is as before. No table the program can bring about holds a \<open>FAILED\<close>
  row.
\<close>

theorem create_payment_authorization:
  "(api_key = Some (expected_api_key e) \<and> PaymentRequest_validate (now_year e) req = Inr ()
      \<and> req_card_details req = Some cd \<longrightarrow>
      (startswith (card_number cd) ''4111''
         \<and> req_currency req \<in> set (map Currency_name [USD, UGX, KES])
         \<and> is_double (req_amount req) \<and> uuid4 e \<notin> set (map payment_id rows) \<longrightarrow>
         (\<exists>p. create_payment e api_key req rows = ((201, PaymentJson p), rows @ [p])
            \<and> status p = SUCCEEDED \<and> payment_id p = uuid4 e \<and> created_at p = utcnow e
            \<and> amount p = req_amount req \<and> currency p = req_currency req
            \<and> description p = req_description req \<and> payment_metadata p = req_metadata req
            \<and> last_four p = get_last_four_digits (card_number cd)))
      \<and> (\<not> startswith (card_number cd) ''4111'' \<longrightarrow>
           create_payment e api_key req rows = ((400, Detail ''Card declined''), rows)))
   \<and> (reachable rows \<longrightarrow> (\<forall>p \<in> set rows. status p \<noteq> FAILED))"
proof -
  have never_failed: "\<forall>p \<in> set rows. status p \<noteq> FAILED" if "reachable rows"
    using reachable_rows_ok [OF that] by (auto simp: row_ok_def)
  have accepted: "\<exists>p. create_payment e api_key req rows = ((201, PaymentJson p), rows @ [p])
      \<and> status p = SUCCEEDED \<and> payment_id p = uuid4 e \<and> created_at p = utcnow e
      \<and> amount p = req_amount req \<and> currency p = req_currency req
      \<and> description p = req_description req \<and> payment_metadata p = req_metadata req
      \<and> last_four p = get_last_four_digits (card_number cd)"
    if "api_key = Some (expected_api_key e)"
      and "PaymentRequest_validate (now_year e) req = Inr ()"
      and "req_card_details req = Some cd" and "startswith (card_number cd) ''4111''"
      and "req_currency req \<in> set (map Currency_name [USD, UGX, KES])"
      and "uuid4 e \<notin> set (map payment_id rows)"
  proof -
    have "loadable (new_payment e req cd)"
      using that(5) by (simp add: loadable_def new_payment_def)
    then have "create_payment e api_key req rows =
        ((201, PaymentJson (new_payment e req cd)), rows @ [new_payment e req cd])"
      using that by (simp add: create_payment_unfold db_add_commit_def db_load_def)
    then show ?thesis
      by (intro exI [of _ "new_payment e req cd"]) (simp add: new_payment_def)
  qed
  have declined: "create_payment e api_key req rows = ((400, Detail ''Card declined''), rows)"
    if "api_key = Some (expected_api_key e)"
      and "PaymentRequest_validate (now_year e) req = Inr ()"
      and "req_card_details req = Some cd" and "\<not> startswith (card_number cd) ''4111''"
    using that by (simp add: create_payment_unfold)
  show ?thesis
    using never_failed accepted declined by blast
qed

theorem create_payment_authorization_witness:
  "PaymentRequest_validate (now_year (test_env ''p1'')) valid_payment_data = Inr ()
   \<and> startswith ''4111111111111111'' ''4111''
   \<and> req_currency valid_payment_data \<in> set (map Currency_name [USD, UGX, KES])
   \<and> is_double (req_amount valid_payment_data)
   \<and> (\<exists>p. create_payment (test_env ''p1'') auth_headers valid_payment_data [] =
            ((201, PaymentJson p), [p])
         \<and> status p = SUCCEEDED \<and> payment_id p = ''p1'' \<and> amount p = 1000
         \<and> currency p = ''USD'' \<and> last_four p = ''1111'')
   \<and> PaymentRequest_validate (now_year (test_env ''p1'')) declined_payment_data = Inr ()
   \<and> \<not> startswith ''5555555555554444'' ''4111''
   \<and> create_payment (test_env ''p1'') auth_headers declined_payment_data [] =
       ((400, Detail ''Card declined''), [])
   \<and> reachable [stored_test_payment ''p1'']
   \<and> status (stored_test_payment ''p1'') \<noteq> FAILED"
proof -
  have key: "auth_headers = Some (expected_api_key (test_env ''p1''))"
    by (simp add: auth_headers_def)
  have v1: "PaymentRequest_validate (now_year (test_env ''p1'')) valid_payment_data = Inr ()"
    by (simp add: valid_payment_data_validates)
  have v2: "PaymentRequest_validate (now_year (test_env ''p1'')) declined_payment_data = Inr ()"
    by (simp add: declined_payment_data_validates)
  have c1: "req_card_details valid_payment_data = Some test_card"
    by (simp add: valid_payment_data_def)
  have c2: "req_card_details declined_payment_data =
      Some (test_card\<lparr>card_number := ''5555555555554444''\<rparr>)"
    by (simp add: declined_payment_data_def)
  have s1: "startswith ''4111111111111111'' ''4111''"
    and s2: "\<not> startswith ''5555555555554444'' ''4111''"
    by (simp_all add: startswith_def)
  have n1: "card_number test_card = ''4111111111111111''"
    by (simp add: test_card_def)
  have cur: "req_currency valid_payment_data \<in> set (map Currency_name [USD, UGX, KES])"
    and cur': "req_currency valid_payment_data = ''USD''"
    and amt': "req_amount valid_payment_data = 1000"
    by (simp_all add: valid_payment_data_def)
  have amt: "is_double (req_amount valid_payment_data)"
    using is_double_of_int [of 1000] by (simp add: amt')
  have four: "get_last_four_digits ''4111111111111111'' = ''1111''"
    by (simp add: get_last_four_digits_def)
  have accepted: "\<exists>p. create_payment (test_env ''p1'') auth_headers valid_payment_data [] =
        ((201, PaymentJson p), [p])
      \<and> status p = SUCCEEDED \<and> payment_id p = ''p1'' \<and> amount p = 1000
      \<and> currency p = ''USD'' \<and> last_four p = ''1111''"
    using create_payment_authorization [where api_key = auth_headers and e = "test_env ''p1''"
        and req = valid_payment_data and cd = test_card and rows = "[]"]
      key v1 c1 s1 n1 cur amt
    by (auto simp: cur' amt' four)
  have declined: "create_payment (test_env ''p1'') auth_headers declined_payment_data [] =
      ((400, Detail ''Card declined''), [])"
    using create_payment_authorization [where api_key = auth_headers and e = "test_env ''p1''"
        and req = declined_payment_data
        and cd = "test_card\<lparr>card_number := ''5555555555554444''\<rparr>" and rows = "[]"]
      key v2 c2 s2
    by simp
  have never: "status (stored_test_payment ''p1'') \<noteq> FAILED"
    using create_payment_authorization [where rows = "[stored_test_payment ''p1'']"]
      reachable_one
    by simp
  show ?thesis
    using v1 s1 cur amt accepted v2 s2 declined reachable_one never by blast
qed




text \<open>
  C7. Whenever \<open>create_payment\<close> adds a row, the row's \<open>last_four\<close> is the end of the
  submitted card number and has four characters. The row is built from the request's
  amount, currency, description and metadata, the generated identifier and time, and
  those four characters only: a request that differs in nothing but the card, with the
  same last four characters, adds the same row.
\<close>

theorem create_payment_last_four:
  assumes "snd (create_payment e api_key req rows) \<noteq> rows"
  shows "\<exists>cd p. req_card_details req = Some cd
     \<and> snd (create_payment e api_key req rows) = rows @ [p]
     \<and> (\<exists>front. card_number cd = front @ last_four p) \<and> length (last_four p) = 4
     \<and> last_four p = get_last_four_digits (card_number cd)
     \<and> p = \<lparr> payment_id = uuid4 e, amount = req_amount req, currency = req_currency req,
             status = SUCCEEDED, created_at = utcnow e, description = req_description req,
             payment_metadata = req_metadata req,
             last_four = get_last_four_digits (card_number cd) \<rparr>
     \<and> (\<forall>cd'. get_last_four_digits (card_number cd') = get_last_four_digits (card_number cd)
           \<and> snd (create_payment e api_key (req\<lparr>req_card_details := Some cd'\<rparr>) rows) \<noteq> rows
           \<longrightarrow> snd (create_payment e api_key (req\<lparr>req_card_details := Some cd'\<rparr>) rows) =
                 snd (create_payment e api_key req rows))"
proof -
  obtain cd where cd: "req_card_details req = Some cd"
    and valid: "PaymentRequest_validate (now_year e) req = Inr ()"
    and rows': "snd (create_payment e api_key req rows) = rows @ [new_payment e req cd]"
    using create_payment_rows [of e api_key req rows] assms by auto
  let ?p = "new_payment e req cd"
  have four: "length (last_four ?p) = 4"
    using new_payment_props [OF valid cd] by simp
  have "card_number cd = take (length (card_number cd) - 4) (card_number cd) @ last_four ?p"
    by (simp add: new_payment_def get_last_four_digits_def)
  then have suffix: "\<exists>front. card_number cd = front @ last_four ?p" ..
  have other: "snd (create_payment e api_key (req\<lparr>req_card_details := Some cd'\<rparr>) rows) =
      rows @ [?p]"
    if same: "get_last_four_digits (card_number cd') = get_last_four_digits (card_number cd)"
      and added: "snd (create_payment e api_key (req\<lparr>req_card_details := Some cd'\<rparr>) rows) \<noteq> rows"
    for cd'
  proof -
    have "snd (create_payment e api_key (req\<lparr>req_card_details := Some cd'\<rparr>) rows) =
        rows @ [new_payment e (req\<lparr>req_card_details := Some cd'\<rparr>) cd']"
      using create_payment_rows [of e api_key "req\<lparr>req_card_details := Some cd'\<rparr>" rows] added
      by auto
    moreover have "new_payment e (req\<lparr>req_card_details := Some cd'\<rparr>) cd' = ?p"
      using same by (simp add: new_payment_def)
    ultimately show ?thesis by simp
  qed
  show ?thesis
    using cd rows' four suffix other
    by (intro exI [of _ cd] exI [of _ ?p]) (simp add: new_payment_def)
qed

theorem create_payment_last_four_witness:
  "snd (create_payment (test_env ''p1'') auth_headers valid_payment_data []) \<noteq> []
   \<and> (\<exists>p. snd (create_payment (test_env ''p1'') auth_headers valid_payment_data []) = [p]
         \<and> last_four p = ''1111'')"
proof -
  have added: "snd (create_payment (test_env ''p1'') auth_headers valid_payment_data []) \<noteq> []"
    by (simp add: create_valid_payment_data)
  have card: "req_card_details valid_payment_data = Some test_card"
    by (simp add: valid_payment_data_def)
  have four: "get_last_four_digits (card_number test_card) = ''1111''"
    by (simp add: get_last_four_digits_def test_card_def)
  show ?thesis
    using added card four create_payment_last_four [OF added] by auto
qed

text \<open>
  C10, at a concrete input. Validation does not look at the currency, and the request
  of the test suite with the currency EUR passes it. The handler then commits the row
  and fails while it builds the response: the answer is 500 and the row is in the
  table, where no later call can read it.
\<close>

theorem create_payment_unlisted_currency_persisted:
  "PaymentRequest_validate 2026 (valid_payment_data\<lparr>req_currency := ''EUR''\<rparr>) =
     PaymentRequest_validate 2026 valid_payment_data
   \<and> snd (create_payment (test_env ''p1'') auth_headers
        (valid_payment_data\<lparr>req_currency := ''EUR''\<rparr>) []) = [stored_eur_payment ''p1'']
   \<and> fst (create_payment (test_env ''p1'') auth_headers
        (valid_payment_data\<lparr>req_currency := ''EUR''\<rparr>) []) =
       (500, Detail ''Internal server error'')
   \<and> currency (stored_eur_payment ''p1'') = ''EUR''
   \<and> get_payment (test_env ''x'') auth_headers ''p1'' [stored_eur_payment ''p1''] =
       ((500, Detail ''Internal server error''), [stored_eur_payment ''p1''])
   \<and> list_payments (test_env ''x'') auth_headers None None [stored_eur_payment ''p1''] =
       ((500, Detail ''Internal server error''), [stored_eur_payment ''p1''])"
proof -
  have "create_payment (test_env ''p1'') auth_headers
      (valid_payment_data\<lparr>req_currency := ''EUR''\<rparr>) [] =
      ((500, Detail ''Internal server error''), [stored_eur_payment ''p1''])"
    using create_eur_payment_data [of "''p1''" "[]"] by (simp add: eur_payment_data_def)
  moreover have "PaymentRequest_validate 2026 (valid_payment_data\<lparr>req_currency := ''EUR''\<rparr>) =
      PaymentRequest_validate 2026 valid_payment_data"
    by (simp add: PaymentRequest_validate_def)
  moreover have "get_payment (test_env ''x'') auth_headers ''p1'' [stored_eur_payment ''p1''] =
      ((500, Detail ''Internal server error''), [stored_eur_payment ''p1''])"
    by (simp add: get_payment_def auth_headers_def validate_api_key_def
        session_get_not_loadable)
  moreover have "list_payments (test_env ''x'') auth_headers None None
      [stored_eur_payment ''p1''] =
      ((500, Detail ''Internal server error''), [stored_eur_payment ''p1''])"
    by (simp add: list_payments_def auth_headers_def validate_api_key_def int_arg_def
        db_select_def in_int64_def select_rows_def)
  ultimately show ?thesis
    by simp
qed

text \<open>
  What holds of every currency: validation gives the same result whatever the currency
  is, and a request that is valid, with a card number starting with 4111, a currency
  that is not the name of a member of \<open>Currency\<close> and a new identifier, is answered
  with 500 while its row is added to the table.
\<close>

lemma PaymentRequest_validate_currency:
  "PaymentRequest_validate year (req\<lparr>req_currency := c\<rparr>) = PaymentRequest_validate year req"
  by (simp add: PaymentRequest_validate_def)

lemma create_payment_unlisted_currency:
  assumes "PaymentRequest_validate (now_year e) req = Inr ()"
    and "req_card_details req = Some cd" and "startswith (card_number cd) ''4111''"
    and "req_currency req \<notin> set (map Currency_name [USD, UGX, KES])"
    and "uuid4 e \<notin> set (map payment_id rows)"
  shows "create_payment e (Some (expected_api_key e)) req rows =
      ((500, Detail ''Internal server error''), rows @ [new_payment e req cd])"
proof -
  have "\<not> loadable (new_payment e req cd)"
    using assms(4) by (simp add: loadable_def new_payment_def)
  then show ?thesis
    using assms by (simp add: create_payment_unfold db_add_commit_def db_load_def)
qed

section \<open>Refunds\<close>

text \<open>
  C2, as stated, at a concrete input: the table the program reaches with the request of
  the test suite and the currency EUR holds a \<open>SUCCEEDED\<close> payment, and a refund of it
  with no amount is answered with 500; the payment stays \<open>SUCCEEDED\<close>.
\<close>

theorem refund_payment_unlisted_currency_counterexample:
  "snd (create_payment (test_env ''p1'') auth_headers
     (valid_payment_data\<lparr>req_currency := ''EUR''\<rparr>) []) = [stored_eur_payment ''p1'']
   \<and> db_get [stored_eur_payment ''p1''] ''p1'' = Some (stored_eur_payment ''p1'')
   \<and> status (stored_eur_payment ''p1'') = SUCCEEDED
   \<and> refund_payment (test_env ''x'') auth_headers ''p1'' None [stored_eur_payment ''p1''] =
       ((500, Detail ''Internal server error''), [stored_eur_payment ''p1''])"
proof -
  have "create_payment (test_env ''p1'') auth_headers
      (valid_payment_data\<lparr>req_currency := ''EUR''\<rparr>) [] =
      ((500, Detail ''Internal server error''), [stored_eur_payment ''p1''])"
    using create_eur_payment_data [of "''p1''" "[]"] by (simp add: eur_payment_data_def)
  moreover have "refund_payment (test_env ''x'') auth_headers ''p1'' None
      [stored_eur_payment ''p1''] =
      ((500, Detail ''Internal server error''), [stored_eur_payment ''p1''])"
    by (simp add: refund_payment_def auth_headers_def validate_api_key_def
        session_get_not_loadable)
  ultimately show ?thesis
    by simp
qed

text \<open>
  C2, amended. With the configured key, refunding a stored \<open>SUCCEEDED\<close> payment whose
  currency is the name of a member of \<open>Currency\<close>, with no amount or an amount up to
  the stored one, answers 200 and stores the payment as \<open>REFUNDED\<close>; whatever requests
  follow, a later refund of the same payment answers 400 with "Payment cannot be
  refunded" and changes nothing. No refund changes the table when the payment's status
  is not \<open>SUCCEEDED\<close> (it is answered with that 400 when the currency is a member's
  name), and a row whose status is not \<open>SUCCEEDED\<close> stays as it is under every
  sequence of requests.
\<close>

theorem refund_payment_once:
  "(db_get rows pid = Some p \<and> status p = SUCCEEDED \<and> loadable p
      \<and> (refund_amount = None \<or> (\<exists>r. refund_amount = Some r \<and> r \<le> amount p)) \<longrightarrow>
      refund_payment e (Some (expected_api_key e)) pid refund_amount rows =
        ((200, PaymentJson (p\<lparr>status := REFUNDED\<rparr>)), db_set_status pid REFUNDED rows)
      \<and> db_get (db_set_status pid REFUNDED rows) pid = Some (p\<lparr>status := REFUNDED\<rparr>)
      \<and> refund_payment e' (Some (expected_api_key e')) pid refund_amount'
           (run calls (db_set_status pid REFUNDED rows)) =
          ((400, Detail ''Payment cannot be refunded''),
           run calls (db_set_status pid REFUNDED rows)))
   \<and> (db_get rows pid = Some q \<and> status q \<noteq> SUCCEEDED \<longrightarrow>
        snd (refund_payment e' api_key' pid refund_amount' rows) = rows
        \<and> (loadable q \<longrightarrow>
             refund_payment e' (Some (expected_api_key e')) pid refund_amount' rows =
               ((400, Detail ''Payment cannot be refunded''), rows))
        \<and> db_get (run calls rows) pid = Some q)"
proof (intro conjI impI)
  assume a: "db_get rows pid = Some p \<and> status p = SUCCEEDED \<and> loadable p
    \<and> (refund_amount = None \<or> (\<exists>r. refund_amount = Some r \<and> r \<le> amount p))"
  let ?rows' = "db_set_status pid REFUNDED rows"
  have got: "session_get rows pid = Inr (Some p)"
    using a by (simp add: session_get_loadable)
  show "refund_payment e (Some (expected_api_key e)) pid refund_amount rows =
      ((200, PaymentJson (p\<lparr>status := REFUNDED\<rparr>)), ?rows')"
    using a got by (auto simp: refund_payment_def)
  show get': "db_get ?rows' pid = Some (p\<lparr>status := REFUNDED\<rparr>)"
    using a by (simp add: db_get_set_status_same)
  have "db_get (run calls ?rows') pid = Some (p\<lparr>status := REFUNDED\<rparr>)"
    using get' by (rule run_keeps_settled) simp
  then have "session_get (run calls ?rows') pid = Inr (Some (p\<lparr>status := REFUNDED\<rparr>))"
    using a by (simp add: session_get_loadable)
  then show "refund_payment e' (Some (expected_api_key e')) pid refund_amount'
      (run calls ?rows') = ((400, Detail ''Payment cannot be refunded''), run calls ?rows')"
    by (simp add: refund_payment_def)
next
  assume b: "db_get rows pid = Some q \<and> status q \<noteq> SUCCEEDED"
  show "snd (refund_payment e' api_key' pid refund_amount' rows) = rows"
    using b
    by (auto simp: refund_payment_def dest: session_get_Some split: sum.splits option.splits)
  show "refund_payment e' (Some (expected_api_key e')) pid refund_amount' rows =
      ((400, Detail ''Payment cannot be refunded''), rows)" if "loadable q"
    using b that by (simp add: refund_payment_def session_get_loadable)
  show "db_get (run calls rows) pid = Some q"
    using b by (simp add: run_keeps_settled)
qed

theorem refund_payment_once_witness:
  "db_get [stored_test_payment ''p1''] ''p1'' = Some (stored_test_payment ''p1'')
   \<and> status (stored_test_payment ''p1'') = SUCCEEDED \<and> loadable (stored_test_payment ''p1'')
   \<and> 1000 \<le> amount (stored_test_payment ''p1'')
   \<and> refund_payment (test_env ''x'') auth_headers ''p1'' (Some 1000) [stored_test_payment ''p1''] =
       ((200, PaymentJson ((stored_test_payment ''p1'')\<lparr>status := REFUNDED\<rparr>)),
        [(stored_test_payment ''p1'')\<lparr>status := REFUNDED\<rparr>])
   \<and> refund_payment (test_env ''x'') auth_headers ''p1'' None
        [(stored_test_payment ''p1'')\<lparr>status := REFUNDED\<rparr>] =
       ((400, Detail ''Payment cannot be refunded''),
        [(stored_test_payment ''p1'')\<lparr>status := REFUNDED\<rparr>])
   \<and> db_get (run [(test_env ''x'', RefundPayment auth_headers ''p1'' None)]
        [(stored_test_payment ''p1'')\<lparr>status := REFUNDED\<rparr>]) ''p1'' =
       Some ((stored_test_payment ''p1'')\<lparr>status := REFUNDED\<rparr>)"
proof -
  let ?p = "stored_test_payment ''p1''"
  have g: "db_get [?p] ''p1'' = Some ?p" and s: "status ?p = SUCCEEDED"
    and l: "loadable ?p" and a: "1000 \<le> amount ?p"
    by simp_all
  have g': "db_get [?p\<lparr>status := REFUNDED\<rparr>] ''p1'' = Some (?p\<lparr>status := REFUNDED\<rparr>)"
    by (simp add: db_get_def)
  have k: "auth_headers = Some (expected_api_key (test_env ''x''))"
    by (simp add: auth_headers_def)
  have first: "refund_payment (test_env ''x'') auth_headers ''p1'' (Some 1000) [?p] =
      ((200, PaymentJson (?p\<lparr>status := REFUNDED\<rparr>)), [?p\<lparr>status := REFUNDED\<rparr>])"
    using g s l a
      refund_payment_once [where rows = "[?p]" and pid = "''p1''" and p = ?p
        and refund_amount = "Some 1000" and e = "test_env ''x''"]
    unfolding k by simp
  have second: "refund_payment (test_env ''x'') auth_headers ''p1'' None
      [?p\<lparr>status := REFUNDED\<rparr>] =
      ((400, Detail ''Payment cannot be refunded''), [?p\<lparr>status := REFUNDED\<rparr>])"
    using g s l a
      refund_payment_once [where rows = "[?p]" and pid = "''p1''" and p = ?p
        and refund_amount = "Some 1000" and e' = "test_env ''x''" and refund_amount' = None
        and calls = "[]"]
    unfolding k by simp
  have stays: "db_get (run [(test_env ''x'', RefundPayment auth_headers ''p1'' None)]
      [?p\<lparr>status := REFUNDED\<rparr>]) ''p1'' = Some (?p\<lparr>status := REFUNDED\<rparr>)"
    using g'
      refund_payment_once [where rows = "[?p\<lparr>status := REFUNDED\<rparr>]" and pid = "''p1''"
        and q = "?p\<lparr>status := REFUNDED\<rparr>"
        and calls = "[(test_env ''x'', RefundPayment auth_headers ''p1'' None)]"]
    by simp
  show ?thesis
    using g s l a first second stays by blast
qed

text \<open>
  C6, as stated, at a concrete input: the stored \<open>SUCCEEDED\<close> payment with the currency
  EUR has the amount 1000, and a refund of 2000 is answered with 500 and "Internal
  server error", not with 400 and "Refund amount exceeds payment amount".
\<close>

theorem refund_payment_exceeding_unlisted_currency_counterexample:
  "reachable [stored_eur_payment ''p1'']
   \<and> db_get [stored_eur_payment ''p1''] ''p1'' = Some (stored_eur_payment ''p1'')
   \<and> status (stored_eur_payment ''p1'') = SUCCEEDED
   \<and> amount (stored_eur_payment ''p1'') < 2000
   \<and> refund_payment (test_env ''x'') auth_headers ''p1'' (Some 2000) [stored_eur_payment ''p1''] =
       ((500, Detail ''Internal server error''), [stored_eur_payment ''p1''])"
  using reachable_eur
  by (simp add: refund_payment_def auth_headers_def validate_api_key_def
      session_get_not_loadable)

text \<open>
  C6, amended. With the configured key, a refund of a stored \<open>SUCCEEDED\<close> payment whose
  currency is the name of a member of \<open>Currency\<close>, naming a number above the stored
  amount, answers 400 with "Refund amount exceeds payment amount", and the table after
  the call is the table before it.
\<close>

theorem refund_payment_exceeding_amount:
  assumes "reachable rows" and "db_get rows pid = Some p" and "status p = SUCCEEDED"
    and "loadable p" and "is_number r" and "amount p < r"
  shows "refund_payment e (Some (expected_api_key e)) pid (Some r) rows =
           ((400, Detail ''Refund amount exceeds payment amount''), rows)"
proof -
  have "row_ok p"
    using reachable_rows_ok [OF assms(1)] db_get_Some [OF assms(2)] by simp
  then have "r \<noteq> 0"
    using assms(6) by (simp add: row_ok_def)
  then show ?thesis
    using assms by (simp add: refund_payment_def session_get_loadable)
qed

theorem refund_payment_exceeding_amount_witness:
  "reachable [stored_test_payment ''p1'']
   \<and> db_get [stored_test_payment ''p1''] ''p1'' = Some (stored_test_payment ''p1'')
   \<and> status (stored_test_payment ''p1'') = SUCCEEDED \<and> loadable (stored_test_payment ''p1'')
   \<and> is_number 2000 \<and> amount (stored_test_payment ''p1'') < 2000
   \<and> refund_payment (test_env ''x'') auth_headers ''p1'' (Some 2000) [stored_test_payment ''p1''] =
       ((400, Detail ''Refund amount exceeds payment amount''), [stored_test_payment ''p1''])"
proof -
  let ?p = "stored_test_payment ''p1''"
  have g: "db_get [?p] ''p1'' = Some ?p" and s: "status ?p = SUCCEEDED"
    and l: "loadable ?p" and a: "amount ?p < 2000"
    by simp_all
  have n: "is_number 2000"
    using is_number_of_int [of 2000] by simp
  show ?thesis
    using reachable_one g s l n a
      refund_payment_exceeding_amount [OF reachable_one g s l n a, where e = "test_env ''x''"]
    by (simp add: auth_headers_def)
qed

text \<open>
  C8. When a refund answers 200, the row stored under the identifier afterwards has the
  status \<open>REFUNDED\<close> and the id, amount, currency, creation time, description, metadata
  and last four digits it had before; it is the row returned, and the rows stored under
  other identifiers are untouched.
\<close>

theorem refund_payment_changes_status_only:
  assumes "refund_payment e api_key pid refund_amount rows = ((200, b), rows')"
    and "db_get rows pid = Some p"
  shows "\<exists>p'. db_get rows' pid = Some p' \<and> b = PaymentJson p' \<and> status p' = REFUNDED
     \<and> payment_id p' = payment_id p \<and> amount p' = amount p \<and> currency p' = currency p
     \<and> created_at p' = created_at p \<and> description p' = description p
     \<and> payment_metadata p' = payment_metadata p \<and> last_four p' = last_four p
     \<and> (\<forall>pid'. pid' \<noteq> pid \<longrightarrow> db_get rows' pid' = db_get rows pid')
     \<and> length rows' = length rows"
proof -
  have "rows' = db_set_status pid REFUNDED rows \<and> b = PaymentJson (p\<lparr>status := REFUNDED\<rparr>)"
    using assms
    by (auto simp: refund_payment_def dest!: session_get_Some
        split: sum.splits option.splits if_splits)
  then show ?thesis
    using assms(2) by (simp add: db_get_set_status_same db_get_set_status_other)
qed

theorem refund_payment_changes_status_only_witness:
  "refund_payment (test_env ''x'') auth_headers ''p1'' None [stored_test_payment ''p1''] =
     ((200, PaymentJson ((stored_test_payment ''p1'')\<lparr>status := REFUNDED\<rparr>)),
      [(stored_test_payment ''p1'')\<lparr>status := REFUNDED\<rparr>])
   \<and> db_get [stored_test_payment ''p1''] ''p1'' = Some (stored_test_payment ''p1'')
   \<and> (\<exists>p'. db_get [(stored_test_payment ''p1'')\<lparr>status := REFUNDED\<rparr>] ''p1'' = Some p'
         \<and> status p' = REFUNDED \<and> amount p' = 1000 \<and> payment_id p' = ''p1'')"
proof -
  let ?p = "stored_test_payment ''p1''"
  have r: "refund_payment (test_env ''x'') auth_headers ''p1'' None [?p] =
      ((200, PaymentJson (?p\<lparr>status := REFUNDED\<rparr>)), [?p\<lparr>status := REFUNDED\<rparr>])"
    by (simp add: refund_payment_def auth_headers_def validate_api_key_def
        session_get_loadable)
  have g: "db_get [?p] ''p1'' = Some ?p"
    by simp
  show ?thesis
    using r g refund_payment_changes_status_only [OF r g] by auto
qed

text \<open>
  C9, as stated, at a concrete input: a refund with the amount 0 of the stored
  \<open>SUCCEEDED\<close> payment with the currency EUR does not succeed; it is answered with
  500 and the payment stays \<open>SUCCEEDED\<close>.
\<close>

theorem refund_payment_zero_unlisted_currency_counterexample:
  "reachable [stored_eur_payment ''p1'']
   \<and> db_get [stored_eur_payment ''p1''] ''p1'' = Some (stored_eur_payment ''p1'')
   \<and> status (stored_eur_payment ''p1'') = SUCCEEDED
   \<and> refund_payment (test_env ''x'') auth_headers ''p1'' (Some 0) [stored_eur_payment ''p1''] =
       ((500, Detail ''Internal server error''), [stored_eur_payment ''p1''])
   \<and> db_get (snd (refund_payment (test_env ''x'') auth_headers ''p1'' (Some 0)
        [stored_eur_payment ''p1''])) ''p1'' = Some (stored_eur_payment ''p1'')"
  using reachable_eur
  by (simp add: refund_payment_def auth_headers_def validate_api_key_def
      session_get_not_loadable)

text \<open>
  C9, amended. A refund that names the amount 0 is served as the refund with no amount
  is, whatever the table holds: for 0 the comparison with the stored amount is not
  made. An amount other than 0 is compared: on a stored \<open>SUCCEEDED\<close> payment whose
  currency is the name of a member of \<open>Currency\<close> it is refused with "Refund amount
  exceeds payment amount" exactly when it is above the stored amount. Every stored
  amount is positive, so on such a payment a refund that names 0 or a negative number
  is served as the refund with no amount is: with the configured key it answers 200
  and the payment is stored as \<open>REFUNDED\<close>.
\<close>

theorem refund_payment_amount_not_positive:
  "refund_payment e api_key pid (Some 0) rows = refund_payment e api_key pid None rows
   \<and> (db_get rows pid = Some p \<and> status p = SUCCEEDED \<and> loadable p \<and> is_number r \<longrightarrow>
        (r \<noteq> 0 \<longrightarrow>
           (refund_payment e (Some (expected_api_key e)) pid (Some r) rows =
              ((400, Detail ''Refund amount exceeds payment amount''), rows))
           = (amount p < r))
        \<and> (reachable rows \<and> r \<le> 0 \<longrightarrow>
             refund_payment e api_key pid (Some r) rows = refund_payment e api_key pid None rows
             \<and> refund_payment e (Some (expected_api_key e)) pid (Some r) rows =
                 ((200, PaymentJson (p\<lparr>status := REFUNDED\<rparr>)), db_set_status pid REFUNDED rows)
             \<and> db_get (db_set_status pid REFUNDED rows) pid = Some (p\<lparr>status := REFUNDED\<rparr>)))"
proof (intro conjI impI)
  show "refund_payment e api_key pid (Some 0) rows = refund_payment e api_key pid None rows"
    by (simp add: refund_payment_def split: sum.splits option.splits)
next
  assume a: "db_get rows pid = Some p \<and> status p = SUCCEEDED \<and> loadable p \<and> is_number r"
    and "r \<noteq> 0"
  then show "(refund_payment e (Some (expected_api_key e)) pid (Some r) rows =
      ((400, Detail ''Refund amount exceeds payment amount''), rows)) = (amount p < r)"
    by (simp add: refund_payment_def session_get_loadable)
next
  assume a: "db_get rows pid = Some p \<and> status p = SUCCEEDED \<and> loadable p \<and> is_number r"
    and b: "reachable rows \<and> r \<le> 0"
  have "row_ok p"
    using reachable_rows_ok [of rows] db_get_Some [of rows pid p] a b by simp
  then have below: "\<not> (r \<noteq> 0 \<and> amount p < r)"
    using b by (simp add: row_ok_def)
  have got: "session_get rows pid = Inr (Some p)"
    using a by (simp add: session_get_loadable)
  show "refund_payment e api_key pid (Some r) rows = refund_payment e api_key pid None rows"
    using a got below by (auto simp: refund_payment_def split: sum.splits)
  show "refund_payment e (Some (expected_api_key e)) pid (Some r) rows =
      ((200, PaymentJson (p\<lparr>status := REFUNDED\<rparr>)), db_set_status pid REFUNDED rows)"
    using a got below by (auto simp: refund_payment_def)
  show "db_get (db_set_status pid REFUNDED rows) pid = Some (p\<lparr>status := REFUNDED\<rparr>)"
    using a by (simp add: db_get_set_status_same)
qed

theorem refund_payment_amount_not_positive_witness:
  "reachable [stored_test_payment ''p1'']
   \<and> db_get [stored_test_payment ''p1''] ''p1'' = Some (stored_test_payment ''p1'')
   \<and> status (stored_test_payment ''p1'') = SUCCEEDED \<and> loadable (stored_test_payment ''p1'')
   \<and> is_number (- 5) \<and> (- 5 :: real) \<le> 0 \<and> (- 5 :: real) \<noteq> 0
   \<and> refund_payment (test_env ''x'') auth_headers ''p1'' (Some (- 5)) [stored_test_payment ''p1''] =
       ((200, PaymentJson ((stored_test_payment ''p1'')\<lparr>status := REFUNDED\<rparr>)),
        [(stored_test_payment ''p1'')\<lparr>status := REFUNDED\<rparr>])
   \<and> refund_payment (test_env ''x'') auth_headers ''p1'' (Some (- 5)) [stored_test_payment ''p1''] \<noteq>
       ((400, Detail ''Refund amount exceeds payment amount''), [stored_test_payment ''p1''])
   \<and> is_number 2000 \<and> (2000 :: real) \<noteq> 0 \<and> amount (stored_test_payment ''p1'') < 2000
   \<and> refund_payment (test_env ''x'') auth_headers ''p1'' (Some 2000) [stored_test_payment ''p1''] =
       ((400, Detail ''Refund amount exceeds payment amount''), [stored_test_payment ''p1''])"
proof -
  let ?p = "stored_test_payment ''p1''"
  have g: "db_get [?p] ''p1'' = Some ?p" and s: "status ?p = SUCCEEDED"
    and l: "loadable ?p" and a: "amount ?p < 2000"
    by simp_all
  have n: "is_number (- 5)" and n': "is_number 2000"
    using is_number_of_int [of "- 5"] is_number_of_int [of 2000] by simp_all
  have k: "auth_headers = Some (expected_api_key (test_env ''x''))"
    by (simp add: auth_headers_def)
  have refunded: "refund_payment (test_env ''x'') auth_headers ''p1'' (Some (- 5)) [?p] =
      ((200, PaymentJson (?p\<lparr>status := REFUNDED\<rparr>)), [?p\<lparr>status := REFUNDED\<rparr>])"
    using reachable_one g s l n
      refund_payment_amount_not_positive [where e = "test_env ''x''" and rows = "[?p]"
        and pid = "''p1''" and p = ?p and r = "- 5" and api_key = None, THEN conjunct2]
    unfolding k by simp
  have compared: "refund_payment (test_env ''x'') auth_headers ''p1'' (Some 2000) [?p] =
      ((400, Detail ''Refund amount exceeds payment amount''), [?p])"
    using g s l n' a
      refund_payment_amount_not_positive [where e = "test_env ''x''" and rows = "[?p]"
        and pid = "''p1''" and p = ?p and r = 2000 and api_key = None, THEN conjunct2]
    unfolding k by simp
  show ?thesis
    using reachable_one g s l n n' a refunded compared by simp
qed

section \<open>Listing payments\<close>

text \<open>
  C5, as stated, at a concrete input: with limit -1 and offset -1 the handler does not
  answer 400; it answers 200 with every row.
\<close>

theorem list_payments_negative_counterexample:
  "list_payments (test_env ''x'') auth_headers (Some ''-1'') (Some ''-1'')
     [stored_test_payment ''p1''] =
     ((200, PaymentListJson [stored_test_payment ''p1'']), [stored_test_payment ''p1''])
   \<and> fst (fst (list_payments (test_env ''x'') auth_headers (Some ''-1'') (Some ''-1'')
        [stored_test_payment ''p1''])) \<noteq> 400"
  by (simp add: list_payments_def auth_headers_def validate_api_key_def int_arg_def
      db_select_def select_rows_def in_int64_def py_int_def strip_def int_isspace_def
      is_digit_def digits_to_int_def int_max_str_digits_def)

text \<open>
  C5, amended. With the configured key, a limit and an offset that \<^verbatim>\<open>int()\<close> reads (10
  and 0 when not given) and that fit in 64 bits, \<open>list_payments\<close> answers 200 with the
  rows in insertion order, \<open>offset\<close> of them skipped and at most \<open>limit\<close> of them kept,
  when the currency of each of these rows is the name of a member of \<open>Currency\<close>. A
  negative value is not refused: a negative limit keeps every row after the offset and
  a negative offset skips none. A limit or offset that \<^verbatim>\<open>int()\<close> cannot read is answered
  with 400. After three payments have been created with answer 201 in an empty table,
  limit 2 with offset 0 returns two rows and limit 2 with offset 2 returns one.
\<close>

theorem list_payments_paging:
  "(int_arg limit_arg 10 = Inr limit \<and> int_arg offset_arg 0 = Inr offset
      \<and> in_int64 limit \<and> in_int64 offset
      \<and> slice = (if limit < 0 then drop (nat offset) rows
                 else take (nat limit) (drop (nat offset) rows))
      \<and> list_all loadable slice \<longrightarrow>
      list_payments e (Some (expected_api_key e)) limit_arg offset_arg rows =
        ((200, PaymentListJson slice), rows))
   \<and> (list_all loadable (take 10 rows) \<longrightarrow>
        list_payments e (Some (expected_api_key e)) None None rows =
          ((200, PaymentListJson (take 10 rows)), rows))
   \<and> ((\<exists>s. limit_arg = Some s \<and> py_int s = None) \<or> (\<exists>s. offset_arg = Some s \<and> py_int s = None)
        \<longrightarrow> fst (fst (list_payments e api_key limit_arg offset_arg rows)) = 400
            \<and> snd (list_payments e api_key limit_arg offset_arg rows) = rows)
   \<and> (create_payment e1 k1 r1 [] = ((201, b1), s1) \<and> create_payment e2 k2 r2 s1 = ((201, b2), s2)
        \<and> create_payment e3 k3 r3 s2 = ((201, b3), s3) \<longrightarrow>
        (\<exists>ps. list_payments e (Some (expected_api_key e)) (Some ''2'') (Some ''0'') s3 =
                 ((200, PaymentListJson ps), s3) \<and> length ps = 2)
        \<and> (\<exists>ps. list_payments e (Some (expected_api_key e)) (Some ''2'') (Some ''2'') s3 =
                 ((200, PaymentListJson ps), s3) \<and> length ps = 1))"
proof (intro conjI impI)
  assume "int_arg limit_arg 10 = Inr limit \<and> int_arg offset_arg 0 = Inr offset
    \<and> in_int64 limit \<and> in_int64 offset
    \<and> slice = (if limit < 0 then drop (nat offset) rows
               else take (nat limit) (drop (nat offset) rows))
    \<and> list_all loadable slice"
  then show "list_payments e (Some (expected_api_key e)) limit_arg offset_arg rows =
      ((200, PaymentListJson slice), rows)"
    by (auto simp: list_payments_def db_select_def select_rows_def)
next
  assume "list_all loadable (take 10 rows)"
  then show "list_payments e (Some (expected_api_key e)) None None rows =
      ((200, PaymentListJson (take 10 rows)), rows)"
    by (simp add: list_payments_def int_arg_def db_select_def select_rows_def in_int64_def)
next
  assume bad: "(\<exists>s. limit_arg = Some s \<and> py_int s = None)
    \<or> (\<exists>s. offset_arg = Some s \<and> py_int s = None)"
  then have "(\<exists>s. int_arg limit_arg 10 = Inl (IntValueError s))
      \<or> (\<exists>s. int_arg offset_arg 0 = Inl (IntValueError s))"
    by (auto simp: int_arg_def)
  then show "fst (fst (list_payments e api_key limit_arg offset_arg rows)) = 400"
    using validate_api_key_cases [of e api_key]
    by (auto simp: list_payments_def int_arg_def split: sum.splits option.splits)
next
  show "snd (list_payments e api_key limit_arg offset_arg rows) = rows"
    by simp
next
  assume three: "create_payment e1 k1 r1 [] = ((201, b1), s1)
    \<and> create_payment e2 k2 r2 s1 = ((201, b2), s2)
    \<and> create_payment e3 k3 r3 s2 = ((201, b3), s3)"
  obtain c1 where s1: "s1 = [new_payment e1 r1 c1]" and l1: "loadable (new_payment e1 r1 c1)"
    using three create_payment_201 [of e1 k1 r1 "[]" b1 s1] by auto
  obtain c2 where s2: "s2 = s1 @ [new_payment e2 r2 c2]" and l2: "loadable (new_payment e2 r2 c2)"
    using three create_payment_201 [of e2 k2 r2 s1 b2 s2] by auto
  obtain c3 where s3: "s3 = s2 @ [new_payment e3 r3 c3]" and l3: "loadable (new_payment e3 r3 c3)"
    using three create_payment_201 [of e3 k3 r3 s2 b3 s3] by auto
  have rows: "s3 = [new_payment e1 r1 c1, new_payment e2 r2 c2, new_payment e3 r3 c3]"
    using s1 s2 s3 by simp
  have two: "int_arg (Some ''2'') d = Inr 2" and zero: "int_arg (Some ''0'') d = Inr 0" for d
    by (simp_all add: int_arg_def py_int_def strip_def int_isspace_def is_digit_def
        digits_to_int_def int_max_str_digits_def)
  show "\<exists>ps. list_payments e (Some (expected_api_key e)) (Some ''2'') (Some ''0'') s3 =
      ((200, PaymentListJson ps), s3) \<and> length ps = 2"
    using l1 l2
    by (simp add: rows list_payments_def two zero db_select_def select_rows_def in_int64_def)
  show "\<exists>ps. list_payments e (Some (expected_api_key e)) (Some ''2'') (Some ''2'') s3 =
      ((200, PaymentListJson ps), s3) \<and> length ps = 1"
    using l3
    by (simp add: rows list_payments_def two db_select_def select_rows_def in_int64_def)
qed

theorem list_payments_paging_witness:
  "int_arg (Some ''1'') 10 = Inr 1 \<and> int_arg (Some ''1'') 0 = Inr 1 \<and> in_int64 1
   \<and> list_all loadable [stored_test_payment ''p2'']
   \<and> list_payments (test_env ''x'') auth_headers (Some ''1'') (Some ''1'')
        [stored_test_payment ''p1'', stored_test_payment ''p2'', stored_test_payment ''p3''] =
       ((200, PaymentListJson [stored_test_payment ''p2'']),
        [stored_test_payment ''p1'', stored_test_payment ''p2'', stored_test_payment ''p3''])
   \<and> py_int ''abc'' = None
   \<and> fst (fst (list_payments (test_env ''x'') auth_headers (Some ''abc'') None [])) = 400
   \<and> py_int [CHR 0x1C, CHR ''2''] = None
   \<and> fst (fst (list_payments (test_env ''x'') auth_headers (Some [CHR 0x1C, CHR ''2'']) None []))
       = 400
   \<and> py_int (replicate 4301 (CHR ''1'')) = None
   \<and> fst (fst (list_payments (test_env ''x'') auth_headers
        (Some (replicate 4301 (CHR ''1''))) None [])) = 400
   \<and> list_all loadable (take 10 [stored_test_payment ''p1''])
   \<and> list_payments (test_env ''x'') auth_headers None None [stored_test_payment ''p1''] =
       ((200, PaymentListJson [stored_test_payment ''p1'']), [stored_test_payment ''p1''])
   \<and> create_payment (test_env ''p1'') auth_headers valid_payment_data [] =
       ((201, PaymentJson (stored_test_payment ''p1'')), [stored_test_payment ''p1''])
   \<and> create_payment (test_env ''p2'') auth_headers valid_payment_data [stored_test_payment ''p1''] =
       ((201, PaymentJson (stored_test_payment ''p2'')),
        [stored_test_payment ''p1'', stored_test_payment ''p2''])
   \<and> create_payment (test_env ''p3'') auth_headers valid_payment_data
        [stored_test_payment ''p1'', stored_test_payment ''p2''] =
       ((201, PaymentJson (stored_test_payment ''p3'')),
        [stored_test_payment ''p1'', stored_test_payment ''p2'', stored_test_payment ''p3''])
   \<and> (\<exists>ps. list_payments (test_env ''x'') auth_headers (Some ''2'') (Some ''0'')
          [stored_test_payment ''p1'', stored_test_payment ''p2'', stored_test_payment ''p3''] =
         ((200, PaymentListJson ps),
          [stored_test_payment ''p1'', stored_test_payment ''p2'', stored_test_payment ''p3''])
        \<and> length ps = 2)
   \<and> (\<exists>ps. list_payments (test_env ''x'') auth_headers (Some ''2'') (Some ''2'')
          [stored_test_payment ''p1'', stored_test_payment ''p2'', stored_test_payment ''p3''] =
         ((200, PaymentListJson ps),
          [stored_test_payment ''p1'', stored_test_payment ''p2'', stored_test_payment ''p3''])
        \<and> length ps = 1)"
proof -
  let ?s1 = "[stored_test_payment ''p1'']"
  let ?s2 = "[stored_test_payment ''p1'', stored_test_payment ''p2'']"
  let ?s3 = "[stored_test_payment ''p1'', stored_test_payment ''p2'', stored_test_payment ''p3'']"
  have key: "auth_headers = Some (expected_api_key (test_env ''x''))"
    by (simp add: auth_headers_def)
  have one: "int_arg (Some ''1'') d = Inr 1" for d
    by (simp add: int_arg_def py_int_def strip_def int_isspace_def is_digit_def
        digits_to_int_def int_max_str_digits_def)
  have range: "in_int64 1"
    by (simp add: in_int64_def)
  have load: "list_all loadable [stored_test_payment ''p2'']"
    by simp
  have abc: "py_int ''abc'' = None" and sep: "py_int [CHR 0x1C, CHR ''2''] = None"
    by (simp_all add: py_int_def strip_def int_isspace_def is_digit_def)
  have c1: "create_payment (test_env ''p1'') auth_headers valid_payment_data [] =
      ((201, PaymentJson (stored_test_payment ''p1'')), ?s1)"
    using create_valid_payment_data [of "''p1''" "[]"] by simp
  have c2: "create_payment (test_env ''p2'') auth_headers valid_payment_data ?s1 =
      ((201, PaymentJson (stored_test_payment ''p2'')), ?s2)"
    using create_valid_payment_data [of "''p2''" ?s1] by simp
  have c3: "create_payment (test_env ''p3'') auth_headers valid_payment_data ?s2 =
      ((201, PaymentJson (stored_test_payment ''p3'')), ?s3)"
    using create_valid_payment_data [of "''p3''" ?s2] by simp
  have slice: "list_payments (test_env ''x'') auth_headers (Some ''1'') (Some ''1'') ?s3 =
      ((200, PaymentListJson [stored_test_payment ''p2'']), ?s3)"
    using one range load
      list_payments_paging [where e = "test_env ''x''" and limit_arg = "Some ''1''"
        and offset_arg = "Some ''1''" and limit = 1 and offset = 1 and rows = ?s3
        and slice = "[stored_test_payment ''p2'']"]
    unfolding key by simp
  have bad1: "fst (fst (list_payments (test_env ''x'') auth_headers (Some ''abc'') None [])) = 400"
    using abc
      list_payments_paging [where e = "test_env ''x''" and limit_arg = "Some ''abc''"
        and offset_arg = None and api_key = auth_headers and rows = "[]"]
    by simp
  have bad2: "fst (fst (list_payments (test_env ''x'') auth_headers
      (Some [CHR 0x1C, CHR ''2'']) None [])) = 400"
    using sep
      list_payments_paging [where e = "test_env ''x''"
        and limit_arg = "Some [CHR 0x1C, CHR ''2'']"
        and offset_arg = None and api_key = auth_headers and rows = "[]"]
    by simp
  have long: "py_int (replicate 4301 (CHR ''1'')) = None"
    by (rule py_int_too_long) (simp_all add: list_all_iff is_digit_def int_max_str_digits_def)
  have bad3: "fst (fst (list_payments (test_env ''x'') auth_headers
      (Some (replicate 4301 (CHR ''1''))) None [])) = 400"
    using long
      list_payments_paging [where e = "test_env ''x''"
        and limit_arg = "Some (replicate 4301 (CHR ''1''))"
        and offset_arg = None and api_key = auth_headers and rows = "[]"]
    by simp
  have load1: "list_all loadable (take 10 [stored_test_payment ''p1''])"
    by simp
  have dflt: "list_payments (test_env ''x'') auth_headers None None [stored_test_payment ''p1''] =
      ((200, PaymentListJson [stored_test_payment ''p1'']), [stored_test_payment ''p1''])"
    using load1
      list_payments_paging [where e = "test_env ''x''" and rows = "[stored_test_payment ''p1'']"]
    unfolding key by simp
  have three: "(\<exists>ps. list_payments (test_env ''x'') auth_headers (Some ''2'') (Some ''0'') ?s3 =
        ((200, PaymentListJson ps), ?s3) \<and> length ps = 2)
      \<and> (\<exists>ps. list_payments (test_env ''x'') auth_headers (Some ''2'') (Some ''2'') ?s3 =
        ((200, PaymentListJson ps), ?s3) \<and> length ps = 1)"
    using c1 c2 c3
      list_payments_paging [where e = "test_env ''x''" and ?e1.0 = "test_env ''p1''"
        and ?e2.0 = "test_env ''p2''" and ?e3.0 = "test_env ''p3''" and ?k1.0 = auth_headers
        and ?k2.0 = auth_headers and ?k3.0 = auth_headers and ?r1.0 = valid_payment_data
        and ?r2.0 = valid_payment_data and ?r3.0 = valid_payment_data
        and ?s1.0 = ?s1 and ?s2.0 = ?s2 and ?s3.0 = ?s3]
    unfolding key by simp
  show ?thesis
    using one range load slice abc bad1 sep bad2 long bad3 load1 dflt c1 c2 c3 three
    by simp
qed

section \<open>Card validation\<close>

text \<open>
  The rules are tried in the order number, month, year, CVV, and the first that fails
  gives the message; the card is accepted when all four hold.
\<close>

lemma CardDetails_validate_first_failure:
  "\<not> match_digits 16 (card_number cd) \<Longrightarrow>
     CardDetails_validate y cd = Inl (ValueError ''Card number must be 16 digits'')"
  "match_digits 16 (card_number cd) \<Longrightarrow> \<not> match_month (expiry_month cd) \<Longrightarrow>
     CardDetails_validate y cd = Inl (ValueError ''Invalid expiry month'')"
  "match_digits 16 (card_number cd) \<Longrightarrow> match_month (expiry_month cd) \<Longrightarrow>
     \<not> match_digits 4 (expiry_year cd) \<or> digits_to_int (take 4 (expiry_year cd)) < y \<Longrightarrow>
     CardDetails_validate y cd = Inl (ValueError ''Invalid expiry year'')"
  "match_digits 16 (card_number cd) \<Longrightarrow> match_month (expiry_month cd) \<Longrightarrow>
     match_digits 4 (expiry_year cd) \<Longrightarrow> y \<le> digits_to_int (take 4 (expiry_year cd)) \<Longrightarrow>
     \<not> match_cvv (cvv cd) \<Longrightarrow>
     CardDetails_validate y cd = Inl (ValueError ''CVV must be 3 or 4 digits'')"
  by (auto simp: CardDetails_validate_def py_int_year)

lemma CardDetails_validate_Inr_iff:
  "CardDetails_validate y cd = Inr () \<longleftrightarrow>
     match_digits 16 (card_number cd) \<and> match_month (expiry_month cd)
     \<and> match_digits 4 (expiry_year cd) \<and> y \<le> digits_to_int (take 4 (expiry_year cd))
     \<and> match_cvv (cvv cd)"
  by (auto simp: CardDetails_validate_def py_int_year)

text \<open>
  On a string without a final newline the pattern of the card number asks for what the
  message says: sixteen characters, each a digit.
\<close>

lemma match_digits_no_newline:
  assumes "s = [] \<or> last s \<noteq> CHR 0x0A"
  shows "match_digits n s \<longleftrightarrow> length s = n \<and> list_all is_digit s"
proof -
  have "drop n s \<noteq> [CHR 0x0A]"
  proof
    assume d: "drop n s = [CHR 0x0A]"
    then have "n < length s"
      by (cases "n < length s") simp_all
    then have "last (drop n s) = last s"
      by (rule last_drop)
    with d assms show False
      by auto
  qed
  then have "at_end (drop n s) \<longleftrightarrow> length s \<le> n"
    by (simp add: at_end_def)
  then show ?thesis
    by (auto simp: match_digits_def min_def)
qed

text \<open>
  C4, at a concrete input. The card number made of sixteen digits and a newline has 17
  characters, yet \<open>CardDetails_validate\<close> accepts it, and \<open>create_payment\<close> stores a
  row for it whose \<open>last_four\<close> ends in the newline.
\<close>

theorem CardDetails_validate_trailing_newline:
  "length (''4111111111111111'' @ [CHR 0x0A]) = 17
   \<and> CardDetails_validate 2026 (test_card\<lparr>card_number := ''4111111111111111'' @ [CHR 0x0A]\<rparr>)
       = Inr ()
   \<and> fst (fst (create_payment (test_env ''p1'') auth_headers
        (valid_payment_data\<lparr>req_card_details :=
           Some (test_card\<lparr>card_number := ''4111111111111111'' @ [CHR 0x0A]\<rparr>)\<rparr>) [])) = 201"
  by (simp add: create_payment_unfold auth_headers_def validate_api_key_def validate_defs
      valid_payment_data_def test_card_def startswith_def db_add_commit_def db_load_def
      loadable_def new_payment_def)

end
